theory Spec2Isabelle
  imports Main "HOL-Library.AList" "HOL-Library.Sublist"
begin

section \<open>Data model of affiliate6.py\<close>

text \<open>
  The script drives a remote advertising platform through a vendor SDK. The model keeps
  the script's records, its dictionaries and its control flow; the platform, the HTTP
  fetch, the clock, the process environment and the floating-point product are
  parameters, so every theorem holds for each behaviour they can have.
\<close>

subsection \<open>Enumerations (str-valued Enum classes)\<close>

datatype CampaignObjective =
    OUTCOME_SALES | OUTCOME_LEADS | OUTCOME_AWARENESS | OUTCOME_TRAFFIC
  | OUTCOME_ENGAGEMENT | Objective_REACH

fun CampaignObjective_value :: "CampaignObjective \<Rightarrow> string" where
  "CampaignObjective_value OUTCOME_SALES = ''OUTCOME_SALES''"
| "CampaignObjective_value OUTCOME_LEADS = ''OUTCOME_LEADS''"
| "CampaignObjective_value OUTCOME_AWARENESS = ''OUTCOME_AWARENESS''"
| "CampaignObjective_value OUTCOME_TRAFFIC = ''OUTCOME_TRAFFIC''"
| "CampaignObjective_value OUTCOME_ENGAGEMENT = ''OUTCOME_ENGAGEMENT''"
| "CampaignObjective_value Objective_REACH = ''REACH''"

datatype OptimizationGoal =
    Goal_REACH | IMPRESSIONS | LINK_CLICKS | LANDING_PAGE_VIEWS | VALUE

fun OptimizationGoal_value :: "OptimizationGoal \<Rightarrow> string" where
  "OptimizationGoal_value Goal_REACH = ''REACH''"
| "OptimizationGoal_value IMPRESSIONS = ''IMPRESSIONS''"
| "OptimizationGoal_value LINK_CLICKS = ''LINK_CLICKS''"
| "OptimizationGoal_value LANDING_PAGE_VIEWS = ''LANDING_PAGE_VIEWS''"
| "OptimizationGoal_value VALUE = ''VALUE''"

datatype BidStrategy =
    LOWEST_COST_WITHOUT_CAP | LOWEST_COST_WITH_BID_CAP | COST_CAP

fun BidStrategy_value :: "BidStrategy \<Rightarrow> string" where
  "BidStrategy_value LOWEST_COST_WITHOUT_CAP = ''LOWEST_COST_WITHOUT_CAP''"
| "BidStrategy_value LOWEST_COST_WITH_BID_CAP = ''LOWEST_COST_WITH_BID_CAP''"
| "BidStrategy_value COST_CAP = ''COST_CAP''"

subsection \<open>Python values, exceptions\<close>

text \<open>
  The request bodies are nested dictionaries. A dictionary keeps its insertion order, so
  it is an association list; \<open>'f\<close> is the type of Python floats, left abstract.
\<close>

datatype 'f pyval =
    PNone
  | PInt int
  | PFloat 'f
  | PStr string
  | PList "'f pyval list"
  | PDict "(string \<times> 'f pyval) list"

type_synonym 'f pydict = "(string \<times> 'f pyval) list"

datatype error =
    AttributeError string
  | TypeError string
  | KeyError string
  | PlatformError string

text \<open>Truthiness of an optional list or string: \<open>None\<close> and the empty value are falsy.\<close>

fun truthy :: "'a list option \<Rightarrow> bool" where
  "truthy None = False"
| "truthy (Some []) = False"
| "truthy (Some (x # xs)) = True"

text \<open>\<open>v or []\<close> for an optional list.\<close>

fun or_empty :: "'a list option \<Rightarrow> 'a list" where
  "or_empty None = []"
| "or_empty (Some xs) = xs"

text \<open>An optional value as a Python value: \<open>None\<close> stays \<open>None\<close>.\<close>

fun opt_val :: "('a \<Rightarrow> 'f pyval) \<Rightarrow> 'a option \<Rightarrow> 'f pyval" where
  "opt_val f None = PNone"
| "opt_val f (Some x) = f x"

subsection \<open>Dataclasses\<close>

record Placement =
  platform :: string
  position :: string
  device_types :: "string list"
  enabled :: bool

record AudienceTargeting =
  age_range :: "int \<times> int"
  genders :: "int list option"
  languages :: "string list option"
  locations :: "string list option"
  interests :: "string list option"
  behaviors :: "string list option"
  demographics :: "string list option"
  excluded_interests :: "string list option"
  custom_audiences :: "string list option"
  lookalike_audiences :: "string list option"
  excluded_custom_audiences :: "string list option"

record AdCreative =
  primary_text :: string
  headline :: string
  description :: string
  call_to_action :: string
  image_hash :: "string option"
  video_id :: "string option"
  link_destination :: "string option"
  display_link :: "string option"

record 'f AdSetParameters =
  name :: string
  optimization_goal :: OptimizationGoal
  billing_event :: string
  bid_strategy :: BidStrategy
  targeting :: AudienceTargeting
  daily_budget :: 'f
  lifetime_budget :: "'f option"
  start_time :: "string option"
  end_time :: "string option"
  schedule :: "'f pydict list option"
  placements :: "Placement list option"

record 'f FacebookCampaignParameters =
  name :: string
  objective :: CampaignObjective
  buying_type :: string
  status :: string
  daily_budget :: 'f
  bid_strategy :: BidStrategy
  cold_audience :: "AudienceTargeting option"
  warm_audience :: "AudienceTargeting option"
  hot_audience :: "AudienceTargeting option"
  placements :: "Placement list option"
  conversion_tracking :: "'f pydict option"
  pixel_id :: "string option"
  ad_sets :: "'f AdSetParameters list option"
  ad_creatives :: "AdCreative list option"
  special_ad_categories :: "string list option"
  campaign_rules :: "'f pydict option"

text \<open>
  \<open>HotmartProduct\<close>: the declared fields, and the attribute \<open>urls\<close> that
  \<open>__post_init__\<close> sets on the instance.
\<close>

record 'f HotmartProduct =
  name :: string
  base_url :: string
  affiliate_id :: string
  price :: 'f
  description :: string
  target_audience :: "string \<rightharpoonup> string list"
  images :: "string list"
  videos :: "string list option"
  testimonials :: "'f pydict list option"
  urls :: "string \<rightharpoonup> string"

definition post_init :: "'f HotmartProduct \<Rightarrow> 'f HotmartProduct" where
  "post_init self =
     self\<lparr>urls :=
       [''sales'' \<mapsto> base_url self,
        ''product'' \<mapsto> base_url self @ ''?dp=1'',
        ''checkout'' \<mapsto> base_url self @ ''?ap=838e'',
        ''order_bump'' \<mapsto> base_url self @ ''?ap=25f0'']\<rparr>"

text \<open>
  The generated constructor: it stores the arguments and runs \<open>post_init\<close>. No
  \<open>urls\<close> attribute exists before that, which the empty map stands for.
\<close>

definition HotmartProduct_init ::
  "string \<Rightarrow> string \<Rightarrow> string \<Rightarrow> 'f \<Rightarrow> string \<Rightarrow> (string \<rightharpoonup> string list) \<Rightarrow> string list
     \<Rightarrow> string list option \<Rightarrow> 'f pydict list option \<Rightarrow> 'f HotmartProduct" where
  "HotmartProduct_init n b a p d t i v ts =
     post_init \<lparr>HotmartProduct.name = n, base_url = b, affiliate_id = a, price = p,
                HotmartProduct.description = d, target_audience = t, images = i,
                videos = v, testimonials = ts, urls = Map.empty\<rparr>"

text \<open>
  Reading an attribute of an \<open>AdCreative\<close> by name: the dataclass defines eight fields,
  any other name raises \<open>AttributeError\<close>.
\<close>

definition AdCreative_getattr :: "AdCreative \<Rightarrow> string \<Rightarrow> error + 'f pyval" where
  "AdCreative_getattr creative attr =
     (if attr = ''primary_text'' then Inr (PStr (primary_text creative))
      else if attr = ''headline'' then Inr (PStr (headline creative))
      else if attr = ''description'' then Inr (PStr (AdCreative.description creative))
      else if attr = ''call_to_action'' then Inr (PStr (call_to_action creative))
      else if attr = ''image_hash'' then Inr (opt_val PStr (image_hash creative))
      else if attr = ''video_id'' then Inr (opt_val PStr (video_id creative))
      else if attr = ''link_destination'' then Inr (opt_val PStr (link_destination creative))
      else if attr = ''display_link'' then Inr (opt_val PStr (display_link creative))
      else Inl (AttributeError attr))"

section \<open>The outside world\<close>

text \<open>
  Each remote operation of the script is a request. \<open>requests_get\<close> is the HTTP fetch of
  an image; the others are the SDK's create operations, with the parent identifier they
  are scoped to and the \<open>params\<close> dictionary. The answer is the content fetched or the
  identifier of the entity created (\<open>get_id()\<close>, \<open>['hash']\<close>, \<open>['id']\<close>), or an exception.
\<close>

datatype 'f request =
    requests_get string
  | AdImage_remote_create string "'f pydict"
  | AdVideo_remote_create string "'f pydict"
  | AdAccount_create_campaign string "'f pydict"
  | AdSet_create string "'f pydict"
  | AdAccount_create_ad_creative string "'f pydict"
  | Ad_create string "'f pydict"

text \<open>
  The platform is a deterministic machine with a state \<open>'w\<close> of its own, about which
  nothing is assumed. \<open>strftime_now\<close> is \<open>datetime.now().strftime('%Y%m%d')\<close>,
  \<open>getenv\<close> is \<open>os.getenv\<close>, \<open>float_times\<close> is the product of a float and an integer
  literal, \<open>ad_account_get_id\<close> is \<open>self.ad_account.get_id()\<close>.
\<close>

record ('w, 'f) runtime =
  remote :: "'f request \<Rightarrow> 'w \<Rightarrow> (error + string) \<times> 'w"
  strftime_now :: "'w \<Rightarrow> string"
  getenv :: "string \<Rightarrow> string option"
  float_times :: "'f \<Rightarrow> int \<Rightarrow> 'f"
  ad_account_get_id :: string

datatype logline =
    Error_uploading_image string error
  | Error_uploading_video string error

type_synonym ref = nat

text \<open>
  The state the script runs in: the platform, the requests issued so far (oldest
  first), the lines printed, and the store of product objects, which
  \<open>create_campaign\<close> receives by reference.
\<close>

record ('w, 'f) state =
  world :: 'w
  calls :: "'f request list"
  printed :: "logline list"
  heap :: "ref \<Rightarrow> 'f HotmartProduct"

definition call ::
  "('w, 'f) runtime \<Rightarrow> 'f request \<Rightarrow> ('w, 'f) state \<Rightarrow> (error + string) \<times> ('w, 'f) state" where
  "call rt rq s =
     (case remote rt rq (world s) of
        (r, w) \<Rightarrow> (r, s\<lparr>world := w, calls := calls s @ [rq]\<rparr>))"

definition print :: "logline \<Rightarrow> ('w, 'f) state \<Rightarrow> ('w, 'f) state" where
  "print l s = s\<lparr>printed := printed s @ [l]\<rparr>"

section \<open>MediaManager\<close>

definition upload_image ::
  "('w, 'f) runtime \<Rightarrow> string \<Rightarrow> ('w, 'f) state \<Rightarrow> string option \<times> ('w, 'f) state" where
  "upload_image rt image_url s =
     (case call rt (requests_get image_url) s of
        (Inl e, s1) \<Rightarrow> (None, print (Error_uploading_image image_url e) s1)
      | (Inr content, s1) \<Rightarrow>
          (case call rt (AdImage_remote_create (ad_account_get_id rt)
                           [(''bytes'', PStr content)]) s1 of
             (Inl e, s2) \<Rightarrow> (None, print (Error_uploading_image image_url e) s2)
           | (Inr hash, s2) \<Rightarrow> (Some hash, s2)))"

definition upload_video ::
  "('w, 'f) runtime \<Rightarrow> string \<Rightarrow> ('w, 'f) state \<Rightarrow> string option \<times> ('w, 'f) state" where
  "upload_video rt video_url s =
     (case call rt (AdVideo_remote_create (ad_account_get_id rt)
                      [(''file_url'', PStr video_url)]) s of
        (Inl e, s1) \<Rightarrow> (None, print (Error_uploading_video video_url e) s1)
      | (Inr vid, s1) \<Rightarrow> (Some vid, s1))"

text \<open>
  The two loops of \<open>upload_media\<close>. \<open>if image_id:\<close> is a truthiness test: it drops
  \<open>None\<close> and the empty string.
\<close>

fun upload_images ::
  "('w, 'f) runtime \<Rightarrow> string list \<Rightarrow> string list \<Rightarrow> ('w, 'f) state
     \<Rightarrow> string list \<times> ('w, 'f) state" where
  "upload_images rt [] ids s = (ids, s)"
| "upload_images rt (image_url # rest) ids s =
     (case upload_image rt image_url s of
        (image_id, s1) \<Rightarrow>
          upload_images rt rest (if truthy image_id then ids @ [the image_id] else ids) s1)"

fun upload_videos ::
  "('w, 'f) runtime \<Rightarrow> string list \<Rightarrow> string list \<Rightarrow> ('w, 'f) state
     \<Rightarrow> string list \<times> ('w, 'f) state" where
  "upload_videos rt [] ids s = (ids, s)"
| "upload_videos rt (video_url # rest) ids s =
     (case upload_video rt video_url s of
        (vid_id, s1) \<Rightarrow>
          upload_videos rt rest (if truthy vid_id then ids @ [the vid_id] else ids) s1)"

definition upload_media ::
  "('w, 'f) runtime \<Rightarrow> (string \<rightharpoonup> string list) \<Rightarrow> ('w, 'f) state
     \<Rightarrow> (string \<rightharpoonup> string list) \<times> ('w, 'f) state" where
  "upload_media rt media_urls s =
     (case (if truthy (media_urls ''images'')
            then upload_images rt (the (media_urls ''images'')) [] s
            else ([], s)) of
        (image_ids, s1) \<Rightarrow>
          (case (if truthy (media_urls ''videos'')
                 then upload_videos rt (the (media_urls ''videos'')) [] s1
                 else ([], s1)) of
             (video_ids, s2) \<Rightarrow>
               ([''images'' \<mapsto> image_ids, ''videos'' \<mapsto> video_ids], s2)))"

section \<open>FacebookCampaignManager\<close>

subsection \<open>Targeting spec\<close>

definition id_dicts :: "string list \<Rightarrow> 'f pyval" where
  "id_dicts xs = PList (map (\<lambda>x. PDict [(''id'', PStr x)]) xs)"

definition build_targeting_spec :: "AudienceTargeting \<Rightarrow> 'f pydict" where
  "build_targeting_spec tg =
     (let spec = [(''age_min'', PInt (fst (age_range tg))),
                  (''age_max'', PInt (snd (age_range tg))),
                  (''genders'', opt_val (\<lambda>gs. PList (map PInt gs)) (genders tg)),
                  (''geo_locations'',
                     PDict [(''countries'',
                             opt_val (\<lambda>ls. PList (map PStr ls)) (locations tg))])];
          spec = (if truthy (interests tg)
                  then AList.update ''interests''
                         (id_dicts (the (interests tg))) spec
                  else spec);
          spec = (if truthy (behaviors tg)
                  then AList.update ''behaviors''
                         (id_dicts (the (behaviors tg))) spec
                  else spec);
          spec = (if truthy (custom_audiences tg)
                  then AList.update ''custom_audiences''
                         (id_dicts (the (custom_audiences tg))) spec
                  else spec);
          spec = (if truthy (excluded_custom_audiences tg)
                  then AList.update ''excluded_custom_audiences''
                         (id_dicts (the (excluded_custom_audiences tg))) spec
                  else spec)
      in spec)"

subsection \<open>Campaign and ad set\<close>

definition create_base_campaign ::
  "('w, 'f) runtime \<Rightarrow> ref \<Rightarrow> 'f FacebookCampaignParameters \<Rightarrow> ('w, 'f) state
     \<Rightarrow> (error + string) \<times> ('w, 'f) state" where
  "create_base_campaign rt product params s =
     call rt (AdAccount_create_campaign (ad_account_get_id rt)
       [(''name'', PStr (FacebookCampaignParameters.name params @ ''_''
                          @ strftime_now rt (world s))),
        (''objective'', PStr (CampaignObjective_value (objective params))),
        (''status'', PStr (status params)),
        (''special_ad_categories'',
           PList (map PStr (or_empty (special_ad_categories params)))),
        (''daily_budget'',
           PFloat (float_times rt (FacebookCampaignParameters.daily_budget params) 100)),
        (''bid_strategy'',
           PStr (BidStrategy_value (FacebookCampaignParameters.bid_strategy params))),
        (''buying_type'', PStr (buying_type params))]) s"

definition create_adset ::
  "('w, 'f) runtime \<Rightarrow> string \<Rightarrow> 'f AdSetParameters \<Rightarrow> ref \<Rightarrow> ('w, 'f) state
     \<Rightarrow> (error + string) \<times> ('w, 'f) state" where
  "create_adset rt campaign params product s =
     call rt (AdSet_create campaign
       [(''name'', PStr (AdSetParameters.name params)),
        (''campaign_id'', PStr campaign),
        (''daily_budget'',
           PFloat (float_times rt (AdSetParameters.daily_budget params) 100)),
        (''optimization_goal'', PStr (OptimizationGoal_value (optimization_goal params))),
        (''billing_event'', PStr (billing_event params)),
        (''bid_strategy'', PStr (BidStrategy_value (AdSetParameters.bid_strategy params))),
        (''targeting'', PDict (build_targeting_spec (targeting params))),
        (''start_time'', opt_val PStr (start_time params)),
        (''end_time'', opt_val PStr (end_time params)),
        (''status'', PStr ''PAUSED'')]) s"

subsection \<open>Ads\<close>

text \<open>
  \<open>creative.link_destination or product.urls['sales']\<close>: the right operand is read only
  when the left one is falsy, and a missing key raises \<open>KeyError\<close>.
\<close>

definition link_of :: "AdCreative \<Rightarrow> 'f HotmartProduct \<Rightarrow> error + string" where
  "link_of creative p =
     (if truthy (link_destination creative) then Inr (the (link_destination creative))
      else (case urls p ''sales'' of
              None \<Rightarrow> Inl (KeyError ''sales'')
            | Some u \<Rightarrow> Inr u))"

definition create_image_ad ::
  "('w, 'f) runtime \<Rightarrow> string \<Rightarrow> AdCreative \<Rightarrow> ref \<Rightarrow> string \<Rightarrow> ('w, 'f) state
     \<Rightarrow> (error + unit) \<times> ('w, 'f) state" where
  "create_image_ad rt adset creative product img_hash s =
     (case link_of creative (heap s product) of
        Inl e \<Rightarrow> (Inl e, s)
      | Inr link \<Rightarrow>
          (case call rt (AdAccount_create_ad_creative (ad_account_get_id rt)
                  [(''name'', PStr (''Creative_'' @ strftime_now rt (world s))),
                   (''object_story_spec'', PDict
                      [(''page_id'', opt_val PStr (getenv rt ''FB_PAGE_ID'')),
                       (''link_data'', PDict
                          [(''link'', PStr link),
                           (''message'', PStr (primary_text creative)),
                           (''headline'', PStr (headline creative)),
                           (''description'', PStr (AdCreative.description creative)),
                           (''image_hash'', PStr img_hash),
                           (''call_to_action'',
                              PDict [(''type'', PStr (call_to_action creative))])])])]) s of
             (Inl e, s1) \<Rightarrow> (Inl e, s1)
           | (Inr ad_creative, s1) \<Rightarrow>
               (case call rt (Ad_create adset
                       [(''name'', PStr (''Ad_Image_'' @ strftime_now rt (world s1))),
                        (''adset_id'', PStr adset),
                        (''creative'', PDict [(''creative_id'', PStr ad_creative)]),
                        (''status'', PStr ''PAUSED'')]) s1 of
                  (Inl e, s2) \<Rightarrow> (Inl e, s2)
                | (Inr ad, s2) \<Rightarrow> (Inr (), s2))))"

text \<open>
  The \<open>params\<close> dictionary is built before \<open>create_ad_creative\<close> is called, entry by
  entry in the order written; an attribute that cannot be read ends the function there.
\<close>

definition create_video_ad ::
  "('w, 'f) runtime \<Rightarrow> string \<Rightarrow> AdCreative \<Rightarrow> ref \<Rightarrow> string \<Rightarrow> ('w, 'f) state
     \<Rightarrow> (error + unit) \<times> ('w, 'f) state" where
  "create_video_ad rt adset creative product vid_id s =
     (case AdCreative_getattr creative ''call_to_action'' of
        Inl e \<Rightarrow> (Inl e, s)
      | Inr cta \<Rightarrow>
     (case AdCreative_getattr creative ''thumbnail_url'' of
        Inl e \<Rightarrow> (Inl e, s)
      | Inr thumbnail_url \<Rightarrow>
     (case AdCreative_getattr creative ''headline'' of
        Inl e \<Rightarrow> (Inl e, s)
      | Inr title \<Rightarrow>
     (case AdCreative_getattr creative ''primary_text'' of
        Inl e \<Rightarrow> (Inl e, s)
      | Inr message \<Rightarrow>
     (case AdCreative_getattr creative ''description'' of
        Inl e \<Rightarrow> (Inl e, s)
      | Inr descr \<Rightarrow>
          (case call rt (AdAccount_create_ad_creative (ad_account_get_id rt)
                  [(''name'', PStr (''Creative_Video_'' @ strftime_now rt (world s))),
                   (''object_story_spec'', PDict
                      [(''page_id'', opt_val PStr (getenv rt ''FB_PAGE_ID'')),
                       (''video_data'', PDict
                          [(''video_id'', PStr vid_id),
                           (''call_to_action'', PDict [(''type'', cta)]),
                           (''image_url'', thumbnail_url),
                           (''title'', title),
                           (''message'', message),
                           (''description'', descr),
                           (''link_description'', descr)])])]) s of
             (Inl e, s1) \<Rightarrow> (Inl e, s1)
           | (Inr ad_creative, s1) \<Rightarrow>
               (case call rt (Ad_create adset
                       [(''name'', PStr (''Ad_Video_'' @ strftime_now rt (world s1))),
                        (''adset_id'', PStr adset),
                        (''creative'', PDict [(''creative_id'', PStr ad_creative)]),
                        (''status'', PStr ''PAUSED'')]) s1 of
                  (Inl e, s2) \<Rightarrow> (Inl e, s2)
                | (Inr ad, s2) \<Rightarrow> (Inr (), s2))))))))"

text \<open>The loops of \<open>create_ads\<close>; an exception leaves them at once.\<close>

fun image_ads ::
  "('w, 'f) runtime \<Rightarrow> string \<Rightarrow> AdCreative \<Rightarrow> ref \<Rightarrow> string list \<Rightarrow> ('w, 'f) state
     \<Rightarrow> (error + unit) \<times> ('w, 'f) state" where
  "image_ads rt adset creative product [] s = (Inr (), s)"
| "image_ads rt adset creative product (img_hash # rest) s =
     (case create_image_ad rt adset creative product img_hash s of
        (Inl e, s1) \<Rightarrow> (Inl e, s1)
      | (Inr u, s1) \<Rightarrow> image_ads rt adset creative product rest s1)"

fun video_ads ::
  "('w, 'f) runtime \<Rightarrow> string \<Rightarrow> AdCreative \<Rightarrow> ref \<Rightarrow> string list \<Rightarrow> ('w, 'f) state
     \<Rightarrow> (error + unit) \<times> ('w, 'f) state" where
  "video_ads rt adset creative product [] s = (Inr (), s)"
| "video_ads rt adset creative product (vid_id # rest) s =
     (case create_video_ad rt adset creative product vid_id s of
        (Inl e, s1) \<Rightarrow> (Inl e, s1)
      | (Inr u, s1) \<Rightarrow> video_ads rt adset creative product rest s1)"

fun creatives_loop ::
  "('w, 'f) runtime \<Rightarrow> string \<Rightarrow> AdCreative list \<Rightarrow> ref \<Rightarrow> (string \<rightharpoonup> string list)
     \<Rightarrow> ('w, 'f) state \<Rightarrow> (error + unit) \<times> ('w, 'f) state" where
  "creatives_loop rt adset [] product media_ids s = (Inr (), s)"
| "creatives_loop rt adset (creative # rest) product media_ids s =
     (case media_ids ''images'' of
        None \<Rightarrow> (Inl (KeyError ''images''), s)
      | Some image_hashes \<Rightarrow>
          (case image_ads rt adset creative product image_hashes s of
             (Inl e, s1) \<Rightarrow> (Inl e, s1)
           | (Inr u, s1) \<Rightarrow>
               (case media_ids ''videos'' of
                  None \<Rightarrow> (Inl (KeyError ''videos''), s1)
                | Some video_ids \<Rightarrow>
                    (case video_ads rt adset creative product video_ids s1 of
                       (Inl e, s2) \<Rightarrow> (Inl e, s2)
                     | (Inr u, s2) \<Rightarrow>
                         creatives_loop rt adset rest product media_ids s2))))"

text \<open>Iterating over \<open>None\<close> raises \<open>TypeError\<close>.\<close>

definition create_ads ::
  "('w, 'f) runtime \<Rightarrow> string \<Rightarrow> AdCreative list option \<Rightarrow> ref \<Rightarrow> (string \<rightharpoonup> string list)
     \<Rightarrow> ('w, 'f) state \<Rightarrow> (error + unit) \<times> ('w, 'f) state" where
  "create_ads rt adset creatives product media_ids s =
     (case creatives of
        None \<Rightarrow> (Inl (TypeError ''NoneType object is not iterable''), s)
      | Some cs \<Rightarrow> creatives_loop rt adset cs product media_ids s)"

fun ad_sets_loop ::
  "('w, 'f) runtime \<Rightarrow> string \<Rightarrow> 'f AdSetParameters list \<Rightarrow> AdCreative list option \<Rightarrow> ref
     \<Rightarrow> (string \<rightharpoonup> string list) \<Rightarrow> ('w, 'f) state \<Rightarrow> (error + unit) \<times> ('w, 'f) state" where
  "ad_sets_loop rt campaign [] creatives product media_ids s = (Inr (), s)"
| "ad_sets_loop rt campaign (ad_set_params # rest) creatives product media_ids s =
     (case create_adset rt campaign ad_set_params product s of
        (Inl e, s1) \<Rightarrow> (Inl e, s1)
      | (Inr adset, s1) \<Rightarrow>
          (case create_ads rt adset creatives product media_ids s1 of
             (Inl e, s2) \<Rightarrow> (Inl e, s2)
           | (Inr u, s2) \<Rightarrow>
               ad_sets_loop rt campaign rest creatives product media_ids s2))"

text \<open>
  The dictionary that \<open>create_campaign\<close> passes to \<open>upload_media\<close>:
  \<open>{'images': product.images, 'videos': product.videos if product.videos else []}\<close>.
\<close>

definition media_urls_of :: "'f HotmartProduct \<Rightarrow> (string \<rightharpoonup> string list)" where
  "media_urls_of p =
     [''images'' \<mapsto> images p,
      ''videos'' \<mapsto> (if truthy (videos p) then the (videos p) else [])]"

definition create_campaign ::
  "('w, 'f) runtime \<Rightarrow> ref \<Rightarrow> 'f FacebookCampaignParameters \<Rightarrow> ('w, 'f) state
     \<Rightarrow> (error + string) \<times> ('w, 'f) state" where
  "create_campaign rt product campaign_params s =
     (case upload_media rt (media_urls_of (heap s product)) s of
        (media_ids, s1) \<Rightarrow>
          (case create_base_campaign rt product campaign_params s1 of
             (Inl e, s2) \<Rightarrow> (Inl e, s2)
           | (Inr campaign, s2) \<Rightarrow>
               (case ad_sets campaign_params of
                  None \<Rightarrow> (Inl (TypeError ''NoneType object is not iterable''), s2)
                | Some sets \<Rightarrow>
                    (case ad_sets_loop rt campaign sets (ad_creatives campaign_params)
                            product media_ids s2 of
                       (Inl e, s3) \<Rightarrow> (Inl e, s3)
                     | (Inr u, s3) \<Rightarrow> (Inr campaign, s3)))))"

section \<open>Observations on the request log\<close>

fun is_campaign_create :: "'f request \<Rightarrow> bool" where
  "is_campaign_create (AdAccount_create_campaign a p) = True"
| "is_campaign_create _ = False"

fun is_adset_create :: "'f request \<Rightarrow> bool" where
  "is_adset_create (AdSet_create c p) = True"
| "is_adset_create _ = False"

fun is_creative_create :: "'f request \<Rightarrow> bool" where
  "is_creative_create (AdAccount_create_ad_creative a p) = True"
| "is_creative_create _ = False"

fun is_ad_create :: "'f request \<Rightarrow> bool" where
  "is_ad_create (Ad_create a p) = True"
| "is_ad_create _ = False"

definition count_calls :: "('f request \<Rightarrow> bool) \<Rightarrow> ('w, 'f) state \<Rightarrow> nat" where
  "count_calls K s = length (filter K (calls s))"

text \<open>
  An observation \<open>obs\<close> maps a request to a list of observed values; \<open>observe obs s\<close>
  collects them over the log, in the order of the requests. An operation is silent for
  \<open>obs\<close> when it adds nothing to what is observed.
\<close>

definition observe :: "('f request \<Rightarrow> 'a list) \<Rightarrow> ('w, 'f) state \<Rightarrow> 'a list" where
  "observe obs s = concat (map obs (calls s))"

definition silent ::
  "('f request \<Rightarrow> 'a list) \<Rightarrow> (('w, 'f) state \<Rightarrow> 'r \<times> ('w, 'f) state) \<Rightarrow> bool" where
  "silent obs f = (\<forall>s. observe obs (snd (f s)) = observe obs s)"

text \<open>A platform on which every operation succeeds, in every state.\<close>

definition succeeds :: "('w, 'f) runtime \<Rightarrow> bool" where
  "succeeds rt = (\<forall>rq w. \<not> isl (fst (remote rt rq w)))"

text \<open>
  An ad-set-create or ad-create request is paused when its \<open>status\<close> entry is
  \<open>PAUSED\<close>; the predicate says nothing about the other requests.
\<close>

fun paused_request :: "'f request \<Rightarrow> bool" where
  "paused_request (AdSet_create c p) = (map_of p ''status'' = Some (PStr ''PAUSED''))"
| "paused_request (Ad_create a p) = (map_of p ''status'' = Some (PStr ''PAUSED''))"
| "paused_request _ = True"

text \<open>
  The requests of a video ad: a creative-create request whose \<open>object_story_spec\<close> has
  the key \<open>video_data\<close>, an ad-create request whose name starts with \<open>Ad_Video_\<close>.
\<close>

fun video_ad_request :: "'f request \<Rightarrow> bool" where
  "video_ad_request (AdAccount_create_ad_creative a p) =
     (case map_of p ''object_story_spec'' of
        Some (PDict spec) \<Rightarrow> map_of spec ''video_data'' \<noteq> None
      | _ \<Rightarrow> False)"
| "video_ad_request (Ad_create a p) =
     (case map_of p ''name'' of
        Some (PStr n) \<Rightarrow> prefix ''Ad_Video_'' n
      | _ \<Rightarrow> False)"
| "video_ad_request _ = False"

text \<open>
  The \<open>daily_budget\<close> entry of a campaign-create and of an ad-set-create request, and
  the \<open>link\<close> of the \<open>link_data\<close> of a creative-create request.
\<close>

fun campaign_budget :: "'f request \<Rightarrow> 'f pyval option list" where
  "campaign_budget (AdAccount_create_campaign a p) = [map_of p ''daily_budget'']"
| "campaign_budget _ = []"

fun adset_budget :: "'f request \<Rightarrow> 'f pyval option list" where
  "adset_budget (AdSet_create c p) = [map_of p ''daily_budget'']"
| "adset_budget _ = []"

fun link_carried :: "'f request \<Rightarrow> 'f pyval option list" where
  "link_carried (AdAccount_create_ad_creative a p) =
     [case map_of p ''object_story_spec'' of
        Some (PDict spec) \<Rightarrow>
          (case map_of spec ''link_data'' of
             Some (PDict d) \<Rightarrow> map_of d ''link''
           | _ \<Rightarrow> None)
      | _ \<Rightarrow> None]"
| "link_carried _ = []"

text \<open>
  The outcomes of the uploads of a list of URLs, one after the other: \<open>None\<close> for an
  upload that failed, the identifier for one that succeeded.
\<close>

fun image_outcomes ::
  "('w, 'f) runtime \<Rightarrow> string list \<Rightarrow> ('w, 'f) state \<Rightarrow> string option list" where
  "image_outcomes rt [] s = []"
| "image_outcomes rt (u # us) s =
     (case upload_image rt u s of (r, s1) \<Rightarrow> r # image_outcomes rt us s1)"

fun video_outcomes ::
  "('w, 'f) runtime \<Rightarrow> string list \<Rightarrow> ('w, 'f) state \<Rightarrow> string option list" where
  "video_outcomes rt [] s = []"
| "video_outcomes rt (u # us) s =
     (case upload_video rt u s of (r, s1) \<Rightarrow> r # video_outcomes rt us s1)"

text \<open>
  \<open>successful_ids\<close> are the identifiers of the uploads that succeeded, \<open>kept_ids\<close>
  those among them that are not the empty string.
\<close>

fun successful_ids :: "string option list \<Rightarrow> string list" where
  "successful_ids [] = []"
| "successful_ids (None # rs) = successful_ids rs"
| "successful_ids (Some h # rs) = h # successful_ids rs"

fun kept_ids :: "string option list \<Rightarrow> string list" where
  "kept_ids [] = []"
| "kept_ids (None # rs) = kept_ids rs"
| "kept_ids (Some h # rs) = (if h = [] then kept_ids rs else h # kept_ids rs)"

section \<open>Sample inputs\<close>

definition sample_targeting :: AudienceTargeting where
  "sample_targeting =
     \<lparr>age_range = (25, 55), genders = None, languages = Some [''EN''], locations = None,
      interests = Some [''digital marketing'', ''online business''], behaviors = Some [],
      demographics = Some [''students''], excluded_interests = Some [''spam''],
      custom_audiences = None, lookalike_audiences = Some [''lal1''],
      excluded_custom_audiences = Some [''buyers'']\<rparr>"

definition located_targeting :: AudienceTargeting where
  "located_targeting =
     \<lparr>age_range = (18, 65), genders = Some [1, 2], languages = None,
      locations = Some [''US'', ''CA'', ''UK'', ''AU''], interests = None, behaviors = None,
      demographics = None, excluded_interests = None, custom_audiences = None,
      lookalike_audiences = None, excluded_custom_audiences = None\<rparr>"

definition sample_product :: "string list \<Rightarrow> string list option \<Rightarrow> int HotmartProduct" where
  "sample_product imgs vids =
     HotmartProduct_init ''Digital Marketing Mastery'' ''https://x.test/ABC'' ''ABC'' 197
       ''Complete course'' Map.empty imgs vids None"

definition sample_creative :: "string option \<Rightarrow> AdCreative" where
  "sample_creative dest =
     \<lparr>primary_text = ''Master Digital Marketing'', headline = ''Master Skills'',
      description = ''Complete A-Z Course'', call_to_action = ''LEARN_MORE'',
      image_hash = None, video_id = None, link_destination = dest, display_link = None\<rparr>"

definition sample_adset :: "int AdSetParameters" where
  "sample_adset =
     \<lparr>AdSetParameters.name = ''Cold Traffic - Interests'', optimization_goal = Goal_REACH,
      billing_event = ''IMPRESSIONS'', AdSetParameters.bid_strategy = LOWEST_COST_WITHOUT_CAP,
      targeting = sample_targeting, AdSetParameters.daily_budget = 20,
      lifetime_budget = None, start_time = None, end_time = None, schedule = None,
      AdSetParameters.placements = None\<rparr>"

definition sample_params ::
  "int AdSetParameters list option \<Rightarrow> AdCreative list option \<Rightarrow> int FacebookCampaignParameters" where
  "sample_params sets creatives =
     \<lparr>FacebookCampaignParameters.name = ''Hotmart Course'', objective = OUTCOME_SALES,
      buying_type = ''AUCTION'', status = ''PAUSED'',
      FacebookCampaignParameters.daily_budget = 50,
      FacebookCampaignParameters.bid_strategy = LOWEST_COST_WITH_BID_CAP,
      cold_audience = None, warm_audience = None, hot_audience = None,
      FacebookCampaignParameters.placements = None, conversion_tracking = None,
      pixel_id = None, ad_sets = sets, ad_creatives = creatives,
      special_ad_categories = None, campaign_rules = None\<rparr>"

text \<open>
  A stub platform: the fetch of \<open>missing.jpg\<close> fails, the image \<open>blank.jpg\<close> is answered
  with the empty hash, every other operation succeeds.
\<close>

fun stub_remote :: "int request \<Rightarrow> nat \<Rightarrow> (error + string) \<times> nat" where
  "stub_remote (requests_get u) w =
     (if u = ''https://x.test/missing.jpg'' then Inl (PlatformError ''ConnectionError'')
      else if u = ''https://x.test/blank.jpg'' then Inr ''blank''
      else Inr ''bytes'', Suc w)"
| "stub_remote (AdImage_remote_create a p) w =
     (if map_of p ''bytes'' = Some (PStr ''blank'') then Inr '''' else Inr ''hash1'', Suc w)"
| "stub_remote (AdVideo_remote_create a p) w = (Inr ''video1'', Suc w)"
| "stub_remote (AdAccount_create_campaign a p) w = (Inr ''campaign1'', Suc w)"
| "stub_remote (AdSet_create c p) w = (Inr ''adset1'', Suc w)"
| "stub_remote (AdAccount_create_ad_creative a p) w = (Inr ''creative1'', Suc w)"
| "stub_remote (Ad_create a p) w = (Inr ''ad1'', Suc w)"

definition stub_runtime :: "(nat, int) runtime" where
  "stub_runtime =
     \<lparr>remote = stub_remote, strftime_now = (\<lambda>w. ''20240101''), getenv = (\<lambda>v. None),
      float_times = (\<lambda>x n. x * n), ad_account_get_id = ''act_1''\<rparr>"

definition stub_state :: "int HotmartProduct \<Rightarrow> (nat, int) state" where
  "stub_state p = \<lparr>world = 0, calls = [], printed = [], heap = (\<lambda>r. p)\<rparr>"

section \<open>Effects of the operations\<close>

text \<open>
  A remote call appends its request to the log and leaves the object store alone;
  printing changes neither.
\<close>

lemma call_effect:
  "call rt rq s = (r, s1) \<Longrightarrow>
     calls s1 = calls s @ [rq] \<and> heap s1 = heap s \<and> printed s1 = printed s"
  by (auto simp: call_def split: prod.splits)

lemma print_effect [simp]:
  "calls (print l s) = calls s" "heap (print l s) = heap s" "world (print l s) = world s"
  by (simp_all add: print_def)

lemma upload_image_heap: "upload_image rt u s = (r, s1) \<Longrightarrow> heap s1 = heap s"
  by (auto simp: upload_image_def split: prod.splits sum.splits dest!: call_effect)

lemma upload_video_heap: "upload_video rt u s = (r, s1) \<Longrightarrow> heap s1 = heap s"
  by (auto simp: upload_video_def split: prod.splits sum.splits dest!: call_effect)

lemma upload_images_heap: "upload_images rt us ids s = (r, s1) \<Longrightarrow> heap s1 = heap s"
proof (induction us arbitrary: ids s)
  case Nil
  then show ?case by simp
next
  case (Cons u us)
  then show ?case
    by (auto split: prod.splits dest!: upload_image_heap)
qed

lemma upload_videos_heap: "upload_videos rt us ids s = (r, s1) \<Longrightarrow> heap s1 = heap s"
proof (induction us arbitrary: ids s)
  case Nil
  then show ?case by simp
next
  case (Cons u us)
  then show ?case
    by (auto split: prod.splits dest!: upload_video_heap)
qed

lemma upload_media_heap: "upload_media rt m s = (r, s1) \<Longrightarrow> heap s1 = heap s"
  by (auto simp: upload_media_def split: prod.splits if_splits
           dest!: upload_images_heap upload_videos_heap)

lemma create_base_campaign_heap:
  "create_base_campaign rt p params s = (r, s1) \<Longrightarrow> heap s1 = heap s"
  by (auto simp: create_base_campaign_def dest!: call_effect)

lemma create_adset_heap:
  "create_adset rt c params p s = (r, s1) \<Longrightarrow> heap s1 = heap s"
  by (auto simp: create_adset_def dest!: call_effect)

lemma create_image_ad_heap:
  "create_image_ad rt a c p h s = (r, s1) \<Longrightarrow> heap s1 = heap s"
  by (auto simp: create_image_ad_def split: prod.splits sum.splits dest!: call_effect)

lemma create_video_ad_heap:
  "create_video_ad rt a c p h s = (r, s1) \<Longrightarrow> heap s1 = heap s"
  by (auto simp: create_video_ad_def split: prod.splits sum.splits dest!: call_effect)

lemma image_ads_heap: "image_ads rt a c p hs s = (r, s1) \<Longrightarrow> heap s1 = heap s"
proof (induction hs arbitrary: s)
  case Nil
  then show ?case by simp
next
  case (Cons h hs)
  then show ?case
    by (auto split: prod.splits sum.splits dest!: create_image_ad_heap)
qed

lemma video_ads_heap: "video_ads rt a c p hs s = (r, s1) \<Longrightarrow> heap s1 = heap s"
proof (induction hs arbitrary: s)
  case Nil
  then show ?case by simp
next
  case (Cons h hs)
  then show ?case
    by (auto split: prod.splits sum.splits dest!: create_video_ad_heap)
qed

lemma creatives_loop_heap:
  "creatives_loop rt a cs p m s = (r, s1) \<Longrightarrow> heap s1 = heap s"
proof (induction cs arbitrary: s)
  case Nil
  then show ?case by simp
next
  case (Cons c cs)
  then show ?case
    by (auto split: prod.splits sum.splits option.splits
             dest!: image_ads_heap video_ads_heap)
qed

lemma create_ads_heap: "create_ads rt a cs p m s = (r, s1) \<Longrightarrow> heap s1 = heap s"
  by (auto simp: create_ads_def split: option.splits dest!: creatives_loop_heap)

lemma ad_sets_loop_heap:
  "ad_sets_loop rt c sets cs p m s = (r, s1) \<Longrightarrow> heap s1 = heap s"
proof (induction sets arbitrary: s)
  case Nil
  then show ?case by simp
next
  case (Cons a sets)
  then show ?case
    by (auto split: prod.splits sum.splits dest!: create_adset_heap create_ads_heap)
qed

lemma create_campaign_heap:
  "create_campaign rt p params s = (r, s1) \<Longrightarrow> heap s1 = heap s"
  by (auto simp: create_campaign_def split: prod.splits sum.splits option.splits
           dest!: upload_media_heap create_base_campaign_heap ad_sets_loop_heap)

section \<open>Targeting spec builder\<close>

text \<open>
  C4. For every \<open>AudienceTargeting\<close>, with an ordered age range or not, the targeting
  spec maps \<open>age_min\<close> to the first and \<open>age_max\<close> to the second component of the age
  range. It always has the key \<open>genders\<close>: its value is the list of the gender codes
  when one was supplied, and \<open>None\<close> otherwise. It always has the key \<open>geo_locations\<close>,
  a dictionary whose only entry \<open>countries\<close> is the list of the locations, as strings
  in their order, when one was supplied, and \<open>None\<close> otherwise.
\<close>

theorem build_targeting_spec_always_emits:
  "map_of (build_targeting_spec tg :: 'f pydict) ''age_min''
     = Some (PInt (fst (age_range tg))) \<and>
   map_of (build_targeting_spec tg :: 'f pydict) ''age_max''
     = Some (PInt (snd (age_range tg))) \<and>
   map_of (build_targeting_spec tg :: 'f pydict) ''genders''
     = Some (case genders tg of
               None \<Rightarrow> PNone
             | Some gs \<Rightarrow> PList (map PInt gs)) \<and>
   map_of (build_targeting_spec tg :: 'f pydict) ''geo_locations''
     = Some (PDict [(''countries'',
                     case locations tg of
                       None \<Rightarrow> PNone
                     | Some ls \<Rightarrow> PList (map PStr ls))])"
  by (cases "genders tg"; cases "locations tg")
     (simp_all add: build_targeting_spec_def Let_def update_conv')

theorem build_targeting_spec_always_emits_witness:
  "fst (age_range located_targeting) \<le> snd (age_range located_targeting) \<and>
   map_of (build_targeting_spec located_targeting :: int pydict) ''age_min''
     = Some (PInt 18) \<and>
   map_of (build_targeting_spec located_targeting :: int pydict) ''age_max''
     = Some (PInt 65) \<and>
   map_of (build_targeting_spec located_targeting :: int pydict) ''genders''
     = Some (PList [PInt 1, PInt 2]) \<and>
   map_of (build_targeting_spec located_targeting :: int pydict) ''geo_locations''
     = Some (PDict [(''countries'',
                     PList [PStr ''US'', PStr ''CA'', PStr ''UK'', PStr ''AU''])]) \<and>
   map_of (build_targeting_spec sample_targeting :: int pydict) ''age_min''
     = Some (PInt 25) \<and>
   map_of (build_targeting_spec sample_targeting :: int pydict) ''age_max''
     = Some (PInt 55) \<and>
   map_of (build_targeting_spec sample_targeting :: int pydict) ''genders'' = Some PNone \<and>
   map_of (build_targeting_spec sample_targeting :: int pydict) ''geo_locations''
     = Some (PDict [(''countries'', PNone)])"
  using build_targeting_spec_always_emits [of located_targeting, where ?'f = int]
        build_targeting_spec_always_emits [of sample_targeting, where ?'f = int]
  by (simp add: located_targeting_def sample_targeting_def)

lemma map_of_spec_interests:
  "map_of (build_targeting_spec tg :: 'f pydict) ''interests'' =
     (case interests tg of
        Some (x # xs) \<Rightarrow> Some (PList (map (\<lambda>v. PDict [(''id'', PStr v)]) (x # xs)))
      | _ \<Rightarrow> None)"
  by (cases "interests tg" rule: truthy.cases)
     (simp_all add: build_targeting_spec_def Let_def update_conv' id_dicts_def)

lemma map_of_spec_behaviors:
  "map_of (build_targeting_spec tg :: 'f pydict) ''behaviors'' =
     (case behaviors tg of
        Some (x # xs) \<Rightarrow> Some (PList (map (\<lambda>v. PDict [(''id'', PStr v)]) (x # xs)))
      | _ \<Rightarrow> None)"
  by (cases "behaviors tg" rule: truthy.cases)
     (simp_all add: build_targeting_spec_def Let_def update_conv' id_dicts_def)

lemma map_of_spec_custom_audiences:
  "map_of (build_targeting_spec tg :: 'f pydict) ''custom_audiences'' =
     (case custom_audiences tg of
        Some (x # xs) \<Rightarrow> Some (PList (map (\<lambda>v. PDict [(''id'', PStr v)]) (x # xs)))
      | _ \<Rightarrow> None)"
  by (cases "custom_audiences tg" rule: truthy.cases)
     (simp_all add: build_targeting_spec_def Let_def update_conv' id_dicts_def)

lemma map_of_spec_excluded_custom_audiences:
  "map_of (build_targeting_spec tg :: 'f pydict) ''excluded_custom_audiences'' =
     (case excluded_custom_audiences tg of
        Some (x # xs) \<Rightarrow> Some (PList (map (\<lambda>v. PDict [(''id'', PStr v)]) (x # xs)))
      | _ \<Rightarrow> None)"
  by (cases "excluded_custom_audiences tg" rule: truthy.cases)
     (simp_all add: build_targeting_spec_def Let_def update_conv' id_dicts_def)

text \<open>
  C5. For every \<open>AudienceTargeting\<close> and each of the keys \<open>interests\<close>, \<open>behaviors\<close>,
  \<open>custom_audiences\<close>, \<open>excluded_custom_audiences\<close>: the targeting spec has the key
  exactly when the input list of that name is non-empty, and then its value is the input
  list in its order, each entry \<open>v\<close> wrapped as \<open>{id: v}\<close>; for an empty list (or \<open>None\<close>)
  the key is absent.
\<close>

theorem build_targeting_spec_conditional_keys:
  "map_of (build_targeting_spec tg :: 'f pydict) ''interests'' =
     (case interests tg of
        Some (x # xs) \<Rightarrow> Some (PList (map (\<lambda>v. PDict [(''id'', PStr v)]) (x # xs)))
      | _ \<Rightarrow> None) \<and>
   map_of (build_targeting_spec tg :: 'f pydict) ''behaviors'' =
     (case behaviors tg of
        Some (x # xs) \<Rightarrow> Some (PList (map (\<lambda>v. PDict [(''id'', PStr v)]) (x # xs)))
      | _ \<Rightarrow> None) \<and>
   map_of (build_targeting_spec tg :: 'f pydict) ''custom_audiences'' =
     (case custom_audiences tg of
        Some (x # xs) \<Rightarrow> Some (PList (map (\<lambda>v. PDict [(''id'', PStr v)]) (x # xs)))
      | _ \<Rightarrow> None) \<and>
   map_of (build_targeting_spec tg :: 'f pydict) ''excluded_custom_audiences'' =
     (case excluded_custom_audiences tg of
        Some (x # xs) \<Rightarrow> Some (PList (map (\<lambda>v. PDict [(''id'', PStr v)]) (x # xs)))
      | _ \<Rightarrow> None)"
  by (simp only: map_of_spec_interests map_of_spec_behaviors map_of_spec_custom_audiences
        map_of_spec_excluded_custom_audiences simp_thms)

theorem build_targeting_spec_conditional_keys_witness:
  "map_of (build_targeting_spec sample_targeting :: int pydict) ''interests'' =
     Some (PList [PDict [(''id'', PStr ''digital marketing'')],
                  PDict [(''id'', PStr ''online business'')]]) \<and>
   map_of (build_targeting_spec sample_targeting :: int pydict) ''behaviors'' = None \<and>
   map_of (build_targeting_spec sample_targeting :: int pydict) ''custom_audiences'' = None \<and>
   map_of (build_targeting_spec sample_targeting :: int pydict) ''excluded_custom_audiences'' =
     Some (PList [PDict [(''id'', PStr ''buyers'')]])"
  using build_targeting_spec_conditional_keys [of sample_targeting, where ?'f = int]
  by (simp add: sample_targeting_def)

lemma spec_keys:
  "set (map fst (build_targeting_spec tg :: 'f pydict)) \<subseteq>
     {''age_min'', ''age_max'', ''genders'', ''geo_locations'', ''interests'', ''behaviors'',
      ''custom_audiences'', ''excluded_custom_audiences''}"
  by (simp add: build_targeting_spec_def Let_def update_keys)

lemma spec_ignores:
  "(build_targeting_spec
      (tg\<lparr>languages := l, demographics := d, excluded_interests := e,
          lookalike_audiences := a\<rparr>) :: 'f pydict) = build_targeting_spec tg"
  by (simp add: build_targeting_spec_def Let_def cong: if_cong)

text \<open>
  C10. For every \<open>AudienceTargeting\<close>, the keys of the targeting spec are among
  \<open>age_min\<close>, \<open>age_max\<close>, \<open>genders\<close>, \<open>geo_locations\<close>, \<open>interests\<close>, \<open>behaviors\<close>,
  \<open>custom_audiences\<close>, \<open>excluded_custom_audiences\<close>, and the spec does not depend on the
  fields \<open>languages\<close>, \<open>demographics\<close>, \<open>excluded_interests\<close>, \<open>lookalike_audiences\<close>:
  replacing them by any lists leaves the spec as it was.
\<close>

theorem build_targeting_spec_unprojected_fields:
  "set (map fst (build_targeting_spec tg :: 'f pydict)) \<subseteq>
     {''age_min'', ''age_max'', ''genders'', ''geo_locations'', ''interests'', ''behaviors'',
      ''custom_audiences'', ''excluded_custom_audiences''} \<and>
   (build_targeting_spec
      (tg\<lparr>languages := l, demographics := d, excluded_interests := e,
          lookalike_audiences := a\<rparr>) :: 'f pydict) = build_targeting_spec tg"
  by (rule conjI [OF spec_keys spec_ignores])

theorem build_targeting_spec_unprojected_fields_witness:
  "languages sample_targeting = Some [''EN''] \<and>
   lookalike_audiences sample_targeting = Some [''lal1''] \<and>
   map fst (build_targeting_spec sample_targeting :: int pydict) =
     [''age_min'', ''age_max'', ''genders'', ''geo_locations'', ''interests'',
      ''excluded_custom_audiences''] \<and>
   (build_targeting_spec
      (sample_targeting\<lparr>languages := None, demographics := None, excluded_interests := None,
          lookalike_audiences := None\<rparr>) :: int pydict) = build_targeting_spec sample_targeting"
  using build_targeting_spec_unprojected_fields
          [where tg = sample_targeting and l = None and d = None and e = None and a = None
             and ?'f = int]
  by (simp add: sample_targeting_def build_targeting_spec_def Let_def)

section \<open>Product URLs\<close>

lemma urls_init:
  "urls (HotmartProduct_init n b a p d t i v ts :: 'f HotmartProduct) k =
     (if k = ''sales'' then Some b
      else if k = ''product'' then Some (b @ ''?dp=1'')
      else if k = ''checkout'' then Some (b @ ''?ap=838e'')
      else if k = ''order_bump'' then Some (b @ ''?ap=25f0'')
      else None)"
  by (simp add: HotmartProduct_init_def post_init_def)

text \<open>
  C9. A product constructed with base URL \<open>b\<close> has a URL map with exactly four entries:
  \<open>sales\<close> is \<open>b\<close>, \<open>product\<close> is \<open>b\<close> followed by \<open>?dp=1\<close>, \<open>checkout\<close> is \<open>b\<close> followed
  by \<open>?ap=838e\<close>, \<open>order_bump\<close> is \<open>b\<close> followed by \<open>?ap=25f0\<close>. The map is set by the
  constructor, and neither \<open>upload_media\<close> nor \<open>create_campaign\<close> changes any product
  object of the store, whatever the platform answers and whether the build succeeds
  or not.
\<close>

theorem product_urls_derived_and_kept:
  "urls (HotmartProduct_init n b a p d t i v ts :: 'f HotmartProduct) =
     [''sales'' \<mapsto> b, ''product'' \<mapsto> b @ ''?dp=1'', ''checkout'' \<mapsto> b @ ''?ap=838e'',
      ''order_bump'' \<mapsto> b @ ''?ap=25f0''] \<and>
   dom (urls (HotmartProduct_init n b a p d t i v ts :: 'f HotmartProduct)) =
     {''sales'', ''product'', ''checkout'', ''order_bump''} \<and>
   heap (snd (upload_media rt m s)) = heap s \<and>
   heap (snd (create_campaign rt product params s)) = heap s"
proof -
  have u: "urls (HotmartProduct_init n b a p d t i v ts :: 'f HotmartProduct) =
     [''sales'' \<mapsto> b, ''product'' \<mapsto> b @ ''?dp=1'', ''checkout'' \<mapsto> b @ ''?ap=838e'',
      ''order_bump'' \<mapsto> b @ ''?ap=25f0'']"
    by (simp add: HotmartProduct_init_def post_init_def)
  have d: "dom (urls (HotmartProduct_init n b a p d t i v ts :: 'f HotmartProduct)) =
     {''sales'', ''product'', ''checkout'', ''order_bump''}"
    by (auto simp: HotmartProduct_init_def post_init_def)
  have h1: "heap (snd (upload_media rt m s)) = heap s"
    using upload_media_heap [of rt m s] by (cases "upload_media rt m s") simp
  have h2: "heap (snd (create_campaign rt product params s)) = heap s"
    using create_campaign_heap [of rt product params s]
    by (cases "create_campaign rt product params s") simp
  from u d h1 h2 show ?thesis by blast
qed

theorem product_urls_derived_and_kept_witness:
  "urls (sample_product [] None) ''sales'' = Some ''https://x.test/ABC'' \<and>
   urls (sample_product [] None) ''product'' = Some ''https://x.test/ABC?dp=1'' \<and>
   urls (sample_product [] None) ''checkout'' = Some ''https://x.test/ABC?ap=838e'' \<and>
   urls (sample_product [] None) ''order_bump'' = Some ''https://x.test/ABC?ap=25f0'' \<and>
   urls (sample_product [] None) ''upsell'' = None"
  using product_urls_derived_and_kept
          [where n = "''Digital Marketing Mastery''" and b = "''https://x.test/ABC''"
             and a = "''ABC''" and p = "197::int" and d = "''Complete course''"
             and t = Map.empty and i = "[]" and v = None and ts = None
             and rt = stub_runtime and m = Map.empty
             and s = "stub_state (sample_product [] None)" and product = 0
             and params = "sample_params None None"]
  by (simp add: sample_product_def)

section \<open>What an operation adds to the request log\<close>

lemma silentD: "silent obs f \<Longrightarrow> f s = (r, s1) \<Longrightarrow> observe obs s1 = observe obs s"
  by (metis silent_def snd_conv)

lemma silentI: "(\<And>s r s1. f s = (r, s1) \<Longrightarrow> observe obs s1 = observe obs s) \<Longrightarrow> silent obs f"
  unfolding silent_def by (metis prod.collapse)

lemma observe_call:
  "call rt rq s = (r, s1) \<Longrightarrow> observe obs s1 = observe obs s @ obs rq"
  by (auto simp: observe_def dest!: call_effect)

lemma observe_print [simp]: "observe obs (print l s) = observe obs s"
  by (simp add: observe_def)

lemma concat_map_if_singleton:
  "concat (map (\<lambda>x. if P x then [x] else []) xs) = filter P xs"
  by (induction xs) auto

lemma observe_filter:
  "observe (\<lambda>rq. if P rq then [rq] else []) s = filter P (calls s)"
  by (simp add: observe_def concat_map_if_singleton)

lemma upload_image_silent:
  assumes "\<And>u. obs (requests_get u) = []" and "\<And>a p. obs (AdImage_remote_create a p) = []"
  shows "silent obs (upload_image rt u)"
  by (rule silentI)
     (auto simp: upload_image_def assms split: prod.splits sum.splits
           dest!: observe_call [where obs = obs])

lemma upload_video_silent:
  assumes "\<And>a p. obs (AdVideo_remote_create a p) = []"
  shows "silent obs (upload_video rt u)"
  by (rule silentI)
     (auto simp: upload_video_def assms split: prod.splits sum.splits
           dest!: observe_call [where obs = obs])

lemma upload_images_silent:
  assumes "\<And>u. obs (requests_get u) = []" and "\<And>a p. obs (AdImage_remote_create a p) = []"
  shows "silent obs (upload_images rt us ids)"
proof (rule silentI)
  fix s r s1
  show "upload_images rt us ids s = (r, s1) \<Longrightarrow> observe obs s1 = observe obs s"
  proof (induction us arbitrary: ids s)
    case Nil
    then show ?case by simp
  next
    case (Cons u us)
    then show ?case
      by (auto split: prod.splits dest!: silentD [OF upload_image_silent [of obs, OF assms]])
  qed
qed

lemma upload_videos_silent:
  assumes "\<And>a p. obs (AdVideo_remote_create a p) = []"
  shows "silent obs (upload_videos rt us ids)"
proof (rule silentI)
  fix s r s1
  show "upload_videos rt us ids s = (r, s1) \<Longrightarrow> observe obs s1 = observe obs s"
  proof (induction us arbitrary: ids s)
    case Nil
    then show ?case by simp
  next
    case (Cons u us)
    then show ?case
      by (auto split: prod.splits dest!: silentD [OF upload_video_silent [of obs, OF assms]])
  qed
qed

lemma upload_media_silent:
  assumes "\<And>u. obs (requests_get u) = []" and "\<And>a p. obs (AdImage_remote_create a p) = []"
    and "\<And>a p. obs (AdVideo_remote_create a p) = []"
  shows "silent obs (upload_media rt m)"
  by (rule silentI)
     (auto simp: upload_media_def split: prod.splits if_splits
           dest!: silentD [OF upload_images_silent [of obs, OF assms(1,2)]]
                  silentD [OF upload_videos_silent [of obs, OF assms(3)]])

lemma create_video_ad_fails:
  "create_video_ad rt a c p v s = (Inl (AttributeError ''thumbnail_url''), s)"
  by (simp add: create_video_ad_def AdCreative_getattr_def)

lemma video_ads_unchanged:
  "video_ads rt a c p vs s = (r, s1) \<Longrightarrow> s1 = s"
  by (cases vs) (auto simp: create_video_ad_fails)

lemma image_ads_silent:
  assumes "\<And>h. silent obs (create_image_ad rt a c p h)"
  shows "silent obs (image_ads rt a c p hs)"
proof (rule silentI)
  fix s r s1
  show "image_ads rt a c p hs s = (r, s1) \<Longrightarrow> observe obs s1 = observe obs s"
  proof (induction hs arbitrary: s)
    case Nil
    then show ?case by simp
  next
    case (Cons h hs)
    then show ?case
      by (auto split: prod.splits sum.splits dest!: silentD [OF assms])
  qed
qed

lemma creatives_loop_silent:
  assumes "\<And>c h. silent obs (create_image_ad rt a c p h)"
  shows "silent obs (creatives_loop rt a cs p m)"
proof (rule silentI)
  fix s r s1
  show "creatives_loop rt a cs p m s = (r, s1) \<Longrightarrow> observe obs s1 = observe obs s"
  proof (induction cs arbitrary: s)
    case Nil
    then show ?case by simp
  next
    case (Cons c cs)
    then show ?case
      by (auto split: prod.splits sum.splits option.splits
               dest!: silentD [OF image_ads_silent [of obs, OF assms]] video_ads_unchanged)
  qed
qed

lemma create_ads_silent:
  assumes "\<And>c h. silent obs (create_image_ad rt a c p h)"
  shows "silent obs (create_ads rt a cs p m)"
  by (rule silentI)
     (auto simp: create_ads_def split: option.splits
           dest!: silentD [OF creatives_loop_silent [of obs, OF assms]])

lemma ad_sets_loop_silent:
  assumes "\<And>a c h. silent obs (create_image_ad rt a c p h)"
    and "\<And>ps. silent obs (create_adset rt cmp ps p)"
  shows "silent obs (ad_sets_loop rt cmp sets cs p m)"
proof (rule silentI)
  fix s r s1
  show "ad_sets_loop rt cmp sets cs p m s = (r, s1) \<Longrightarrow> observe obs s1 = observe obs s"
  proof (induction sets arbitrary: s)
    case Nil
    then show ?case by simp
  next
    case (Cons x sets)
    then show ?case
      by (auto split: prod.splits sum.splits
               dest!: silentD [OF create_ads_silent [of obs, OF assms(1)]]
                      silentD [OF assms(2)])
  qed
qed

lemma create_campaign_silent:
  assumes "\<And>u. obs (requests_get u) = []" and "\<And>a p. obs (AdImage_remote_create a p) = []"
    and "\<And>a p. obs (AdVideo_remote_create a p) = []"
    and "silent obs (create_base_campaign rt p params)"
    and "\<And>cmp ps. silent obs (create_adset rt cmp ps p)"
    and "\<And>a c h. silent obs (create_image_ad rt a c p h)"
  shows "silent obs (create_campaign rt p params)"
  by (rule silentI)
     (auto simp: create_campaign_def split: prod.splits sum.splits option.splits
           dest!: silentD [OF upload_media_silent [of obs, OF assms(1,2,3)]]
                  silentD [OF assms(4)]
                  silentD [OF ad_sets_loop_silent [of obs, OF assms(6) assms(5)]])

lemma create_base_campaign_silent:
  assumes "\<And>a d. obs (AdAccount_create_campaign a d) = []"
  shows "silent obs (create_base_campaign rt p params)"
  by (rule silentI)
     (auto simp: create_base_campaign_def assms dest!: observe_call [where obs = obs])

lemma create_adset_silent:
  assumes "\<And>c d. obs (AdSet_create c d) = []"
  shows "silent obs (create_adset rt cmp ps p)"
  by (rule silentI)
     (auto simp: create_adset_def assms dest!: observe_call [where obs = obs])

lemma create_image_ad_silent:
  assumes "\<And>a d. obs (AdAccount_create_ad_creative a d) = []"
    and "\<And>a d. obs (Ad_create a d) = []"
  shows "silent obs (create_image_ad rt a c p h)"
  by (rule silentI)
     (auto simp: create_image_ad_def assms split: prod.splits sum.splits
           dest!: observe_call [where obs = obs])

lemmas sample_defs =
  stub_state_def stub_runtime_def sample_product_def sample_params_def sample_adset_def
  sample_creative_def sample_targeting_def HotmartProduct_init_def post_init_def

lemmas pipeline_defs =
  create_campaign_def media_urls_of_def upload_media_def upload_image_def upload_video_def
  call_def print_def create_base_campaign_def create_adset_def create_ads_def
  create_image_ad_def create_video_ad_def link_of_def AdCreative_getattr_def
  build_targeting_spec_def id_dicts_def

section \<open>Status of what the pipeline creates\<close>

lemma create_adset_paused:
  "silent (\<lambda>rq. if \<not> paused_request rq then [rq] else []) (create_adset rt cmp ps p)"
  by (rule silentI)
     (auto simp: create_adset_def
           dest!: observe_call [where obs = "\<lambda>rq. if \<not> paused_request rq then [rq] else []"])

lemma create_image_ad_paused:
  "silent (\<lambda>rq. if \<not> paused_request rq then [rq] else []) (create_image_ad rt a c p h)"
  by (rule silentI)
     (auto simp: create_image_ad_def split: prod.splits sum.splits
           dest!: observe_call [where obs = "\<lambda>rq. if \<not> paused_request rq then [rq] else []"])

lemma create_campaign_paused:
  "silent (\<lambda>rq. if \<not> paused_request rq then [rq] else []) (create_campaign rt p params)"
  by (rule create_campaign_silent)
     (simp_all add: create_base_campaign_silent create_adset_paused create_image_ad_paused)

text \<open>
  C6. Whatever the product, the parameters and the answers of the platform, every
  ad-set-create request and every ad-create request in the log of a run of
  \<open>create_campaign\<close> that started with an empty log has \<open>status\<close> \<open>PAUSED\<close>. (The
  campaign-create request carries the status given in the parameters.)
\<close>

theorem create_campaign_requests_paused:
  "list_all paused_request
     (calls (snd (create_campaign rt product params (s\<lparr>calls := []\<rparr>))))"
proof -
  have "filter (\<lambda>rq. \<not> paused_request rq)
          (calls (snd (create_campaign rt product params (s\<lparr>calls := []\<rparr>)))) = []"
    using create_campaign_paused [of rt product params]
    by (simp add: silent_def observe_filter)
  then show ?thesis
    by (simp add: filter_empty_conv list_all_iff)
qed

theorem create_campaign_requests_paused_witness:
  "count_calls is_adset_create
     (snd (create_campaign stub_runtime 0
             (sample_params (Some [sample_adset]) (Some [sample_creative None]))
             (stub_state (sample_product [''https://x.test/i1.jpg''] None)))) = 1 \<and>
   count_calls is_ad_create
     (snd (create_campaign stub_runtime 0
             (sample_params (Some [sample_adset]) (Some [sample_creative None]))
             (stub_state (sample_product [''https://x.test/i1.jpg''] None)))) = 1 \<and>
   list_all paused_request
     (calls (snd (create_campaign stub_runtime 0
             (sample_params (Some [sample_adset]) (Some [sample_creative None]))
             (stub_state (sample_product [''https://x.test/i1.jpg''] None)))))"
  using create_campaign_requests_paused
          [of stub_runtime 0 "sample_params (Some [sample_adset]) (Some [sample_creative None])"
              "stub_state (sample_product [''https://x.test/i1.jpg''] None)"]
  by (simp add: sample_defs pipeline_defs count_calls_def Let_def)

section \<open>Video ads\<close>

lemma create_adset_no_video:
  "silent (\<lambda>rq. if video_ad_request rq then [rq] else []) (create_adset rt cmp ps p)"
  by (rule create_adset_silent) simp

lemma create_image_ad_no_video:
  "silent (\<lambda>rq. if video_ad_request rq then [rq] else []) (create_image_ad rt a c p h)"
  by (rule silentI)
     (auto simp: create_image_ad_def split: prod.splits sum.splits
           dest!: observe_call [where obs = "\<lambda>rq. if video_ad_request rq then [rq] else []"])

lemma create_campaign_no_video:
  "silent (\<lambda>rq. if video_ad_request rq then [rq] else []) (create_campaign rt p params)"
  by (rule create_campaign_silent)
     (simp_all add: create_base_campaign_silent create_adset_no_video create_image_ad_no_video)

lemma creatives_loop_aborts:
  "m ''videos'' = Some (v # vs) \<Longrightarrow> \<exists>e s1. creatives_loop rt a (c # cs) p m s = (Inl e, s1)"
  by (auto simp: create_video_ad_fails split: option.splits prod.splits sum.splits)

lemma ad_sets_loop_aborts:
  assumes "m ''videos'' = Some (v # vs)"
  shows "\<exists>e s1. ad_sets_loop rt cmp (x # xs) (Some (c # cs)) p m s = (Inl e, s1)"
proof (cases "create_adset rt cmp x p s")
  case (Pair r s1)
  show ?thesis
  proof (cases r)
    case (Inl e)
    with Pair show ?thesis by simp
  next
    case (Inr adset)
    from creatives_loop_aborts [where m = m and rt = rt and a = adset and c = c and cs = cs
           and p = p and s = s1, OF assms]
    obtain e s2 where "creatives_loop rt adset (c # cs) p m s1 = (Inl e, s2)" by blast
    with Pair Inr show ?thesis by (simp add: create_ads_def)
  qed
qed

lemma create_campaign_aborts:
  assumes "upload_media rt (media_urls_of (heap s product)) s = (media_ids, s1)"
    and "media_ids ''videos'' = Some (v # vs)"
    and "ad_sets params = Some (x # xs)"
    and "ad_creatives params = Some (c # cs)"
  shows "\<exists>e s2. create_campaign rt product params s = (Inl e, s2)"
proof (cases "create_base_campaign rt product params s1")
  case (Pair r s2)
  show ?thesis
  proof (cases r)
    case (Inl e)
    with Pair assms(1) show ?thesis by (simp add: create_campaign_def)
  next
    case (Inr campaign)
    from ad_sets_loop_aborts [where m = media_ids and rt = rt and cmp = campaign and x = x
           and xs = xs and c = c and cs = cs and p = product and s = s2, OF assms(2)]
    obtain e s3 where
      "ad_sets_loop rt campaign (x # xs) (Some (c # cs)) product media_ids s2 = (Inl e, s3)"
      by blast
    with Pair Inr assms show ?thesis by (simp add: create_campaign_def)
  qed
qed

text \<open>
  C2. For every creative and every video identifier, \<open>create_video_ad\<close> raises
  \<open>AttributeError\<close> for \<open>thumbnail_url\<close>, which \<open>AdCreative\<close> does not define, and leaves the
  state as it was: no request is issued. Nothing catches the exception: a build in
  which at least one video was uploaded, with at least one ad set and at least one
  creative, ends with an error. And no run of \<open>create_campaign\<close> adds a creative-create
  request with \<open>video_data\<close> or an ad-create request of a video ad to the log.
\<close>

theorem video_ad_creation_always_fails:
  "create_video_ad rt adset creative product vid s
     = (Inl (AttributeError ''thumbnail_url''), s) \<and>
   (fst (upload_media rt (media_urls_of (heap s product)) s) ''videos'' = Some (v # vs) \<and>
    ad_sets params = Some (x # xs) \<and> ad_creatives params = Some (c # cs)
      \<longrightarrow> (\<exists>e s2. create_campaign rt product params s = (Inl e, s2))) \<and>
   filter video_ad_request (calls (snd (create_campaign rt product params s)))
     = filter video_ad_request (calls s)"
proof (intro conjI impI)
  show "create_video_ad rt adset creative product vid s
          = (Inl (AttributeError ''thumbnail_url''), s)"
    by (rule create_video_ad_fails)
next
  assume a: "fst (upload_media rt (media_urls_of (heap s product)) s) ''videos''
               = Some (v # vs) \<and>
             ad_sets params = Some (x # xs) \<and> ad_creatives params = Some (c # cs)"
  obtain media_ids s1 where
    u: "upload_media rt (media_urls_of (heap s product)) s = (media_ids, s1)"
    by (cases "upload_media rt (media_urls_of (heap s product)) s")
  with a have "media_ids ''videos'' = Some (v # vs)" by simp
  with u a show "\<exists>e s2. create_campaign rt product params s = (Inl e, s2)"
    using create_campaign_aborts by blast
next
  show "filter video_ad_request (calls (snd (create_campaign rt product params s)))
          = filter video_ad_request (calls s)"
    using create_campaign_no_video [of rt product params]
    by (simp add: silent_def observe_filter)
qed

theorem video_ad_creation_always_fails_witness:
  "fst (upload_media stub_runtime
          (media_urls_of (sample_product [''https://x.test/i1.jpg''] (Some [''https://x.test/v1.mp4''])))
          (stub_state (sample_product [''https://x.test/i1.jpg''] (Some [''https://x.test/v1.mp4'']))))
     ''videos'' = Some [''video1''] \<and>
   fst (create_campaign stub_runtime 0
          (sample_params (Some [sample_adset]) (Some [sample_creative None]))
          (stub_state (sample_product [''https://x.test/i1.jpg''] (Some [''https://x.test/v1.mp4'']))))
     = Inl (AttributeError ''thumbnail_url'')"
  using video_ad_creation_always_fails
          [where rt = stub_runtime and product = 0
             and s = "stub_state (sample_product [''https://x.test/i1.jpg'']
                                    (Some [''https://x.test/v1.mp4'']))"
             and params = "sample_params (Some [sample_adset]) (Some [sample_creative None])"
             and v = "''video1''" and vs = "[]" and x = sample_adset and xs = "[]"
             and c = "sample_creative None" and cs = "[]"
             and adset = "''adset1''" and creative = "sample_creative None"
             and vid = "''video1''"]
  by (simp add: sample_defs pipeline_defs Let_def)

section \<open>Daily budgets\<close>

lemma create_base_campaign_budget:
  "create_base_campaign rt p params s = (r, s1) \<Longrightarrow>
     observe campaign_budget s1 = observe campaign_budget s @
       [Some (PFloat (float_times rt (FacebookCampaignParameters.daily_budget params) 100))]"
  by (auto simp: create_base_campaign_def dest!: observe_call [where obs = campaign_budget])

lemma create_adset_budget:
  "create_adset rt cmp ps p s = (r, s1) \<Longrightarrow>
     observe adset_budget s1 = observe adset_budget s @
       [Some (PFloat (float_times rt (AdSetParameters.daily_budget ps) 100))]"
  by (auto simp: create_adset_def dest!: observe_call [where obs = adset_budget])

lemma create_ads_adset_budget: "silent adset_budget (create_ads rt a cs p m)"
  by (rule create_ads_silent) (rule create_image_ad_silent, simp_all)

lemma ad_sets_loop_adset_budgets:
  "ad_sets_loop rt cmp sets cs p m s = (r, s1) \<Longrightarrow>
     \<exists>n\<le>length sets.
       observe adset_budget s1 = observe adset_budget s @
         map (\<lambda>a. Some (PFloat (float_times rt (AdSetParameters.daily_budget a) 100)))
           (take n sets) \<and>
       (r = Inr () \<longrightarrow> n = length sets)"
proof (induction sets arbitrary: s)
  case Nil
  then show ?case by simp
next
  case (Cons x sets)
  obtain r0 sa where a: "create_adset rt cmp x p s = (r0, sa)"
    by (cases "create_adset rt cmp x p s")
  note oa = create_adset_budget [OF a]
  show ?case
  proof (cases r0)
    case (Inl e)
    with a Cons.prems have "r = Inl e" "s1 = sa" by simp_all
    with oa show ?thesis by (intro exI [of _ 1]) simp
  next
    case (Inr adset)
    obtain r1 sb where b: "create_ads rt adset cs p m sa = (r1, sb)"
      by (cases "create_ads rt adset cs p m sa")
    have ob: "observe adset_budget sb = observe adset_budget sa"
      using silentD [OF create_ads_adset_budget b] .
    show ?thesis
    proof (cases r1)
      case (Inl e)
      with a b Inr Cons.prems have "r = Inl e" "s1 = sb" by simp_all
      with oa ob show ?thesis by (intro exI [of _ 1]) simp
    next
      case (Inr u)
      with a b \<open>r0 = Inr adset\<close> Cons.prems
      have "ad_sets_loop rt cmp sets cs p m sb = (r, s1)" by simp
      from Cons.IH [OF this] obtain n where
        n: "n \<le> length sets"
           "observe adset_budget s1 = observe adset_budget sb @
              map (\<lambda>a. Some (PFloat (float_times rt (AdSetParameters.daily_budget a) 100)))
                (take n sets)"
           "r = Inr () \<longrightarrow> n = length sets"
        by blast
      with oa ob show ?thesis by (intro exI [of _ "Suc n"]) simp
    qed
  qed
qed

lemma ad_sets_loop_campaign_budget: "silent campaign_budget (ad_sets_loop rt cmp sets cs p m)"
  by (rule ad_sets_loop_silent) (rule create_image_ad_silent create_adset_silent, simp_all)+

lemma upload_media_campaign_budget: "silent campaign_budget (upload_media rt m)"
  by (rule upload_media_silent) simp_all

lemma upload_media_adset_budget: "silent adset_budget (upload_media rt m)"
  by (rule upload_media_silent) simp_all

lemma create_base_campaign_adset_budget: "silent adset_budget (create_base_campaign rt p params)"
  by (rule create_base_campaign_silent) simp

lemma create_campaign_campaign_budget:
  assumes "create_campaign rt p params s = (r, s1)"
  shows "observe campaign_budget s1 = observe campaign_budget s @
       [Some (PFloat (float_times rt (FacebookCampaignParameters.daily_budget params) 100))]"
  using assms
  by (auto simp: create_campaign_def split: prod.splits sum.splits option.splits
           dest!: silentD [OF upload_media_campaign_budget] create_base_campaign_budget
                  silentD [OF ad_sets_loop_campaign_budget])

lemma create_campaign_adset_budgets:
  assumes "create_campaign rt p params s = (r, s1)"
  shows "\<exists>n\<le>length (or_empty (ad_sets params)).
       observe adset_budget s1 = observe adset_budget s @
         map (\<lambda>a. Some (PFloat (float_times rt (AdSetParameters.daily_budget a) 100)))
           (take n (or_empty (ad_sets params))) \<and>
       (\<not> isl r \<longrightarrow> n = length (or_empty (ad_sets params)))"
proof -
  obtain mi sa where u: "upload_media rt (media_urls_of (heap s p)) s = (mi, sa)"
    by (cases "upload_media rt (media_urls_of (heap s p)) s")
  obtain r0 sb where b: "create_base_campaign rt p params sa = (r0, sb)"
    by (cases "create_base_campaign rt p params sa")
  have o: "observe adset_budget sb = observe adset_budget s"
    using silentD [OF upload_media_adset_budget u]
          silentD [OF create_base_campaign_adset_budget b] by simp
  show ?thesis
  proof (cases r0)
    case (Inl e)
    with u b assms have "r = Inl e" "s1 = sb" by (simp_all add: create_campaign_def)
    with o show ?thesis by (intro exI [of _ 0]) simp
  next
    case (Inr campaign)
    show ?thesis
    proof (cases "ad_sets params")
      case None
      with u b Inr assms have "s1 = sb" by (simp add: create_campaign_def)
      with o None show ?thesis by simp
    next
      case (Some sets)
      obtain r1 sc where
        l: "ad_sets_loop rt campaign sets (ad_creatives params) p mi sb = (r1, sc)"
        by (cases "ad_sets_loop rt campaign sets (ad_creatives params) p mi sb")
      with u b Inr Some assms have e: "s1 = sc" "isl r = isl r1"
        by (auto simp: create_campaign_def split: sum.splits)
      from ad_sets_loop_adset_budgets [OF l] obtain n where
        "n \<le> length sets"
        "observe adset_budget sc = observe adset_budget sb @
           map (\<lambda>a. Some (PFloat (float_times rt (AdSetParameters.daily_budget a) 100)))
             (take n sets)"
        "r1 = Inr () \<longrightarrow> n = length sets"
        by blast
      with e o Some show ?thesis
        by (intro exI [of _ n]) (cases r1; simp)
    qed
  qed
qed

text \<open>
  C7. In a run of \<open>create_campaign\<close> started with an empty log, whatever the platform
  answers: the log has exactly one campaign-create request, whose \<open>daily_budget\<close> is the
  product \<open>float_times\<close> of the campaign's input daily budget and \<open>100\<close>; the
  \<open>daily_budget\<close> values of the ad-set-create requests are, in order, the products of
  the daily budgets of the first ad sets of \<open>params.ad_sets\<close> and \<open>100\<close>, and of all of
  them when the run ends without an error. \<open>float_times\<close> is the multiplication of the
  float type, here any function; no input needs to be positive.
\<close>

theorem daily_budget_times_100:
  "observe campaign_budget (snd (create_campaign rt product params (s\<lparr>calls := []\<rparr>)))
     = [Some (PFloat (float_times rt (FacebookCampaignParameters.daily_budget params) 100))] \<and>
   prefix
     (observe adset_budget (snd (create_campaign rt product params (s\<lparr>calls := []\<rparr>))))
     (map (\<lambda>a. Some (PFloat (float_times rt (AdSetParameters.daily_budget a) 100)))
        (or_empty (ad_sets params))) \<and>
   (\<not> isl (fst (create_campaign rt product params (s\<lparr>calls := []\<rparr>))) \<longrightarrow>
      observe adset_budget (snd (create_campaign rt product params (s\<lparr>calls := []\<rparr>)))
        = map (\<lambda>a. Some (PFloat (float_times rt (AdSetParameters.daily_budget a) 100)))
            (or_empty (ad_sets params)))"
proof -
  obtain r s1 where c: "create_campaign rt product params (s\<lparr>calls := []\<rparr>) = (r, s1)"
    by (cases "create_campaign rt product params (s\<lparr>calls := []\<rparr>)")
  have e: "observe campaign_budget (s\<lparr>calls := []\<rparr>) = []"
          "observe adset_budget (s\<lparr>calls := []\<rparr>) = []"
    by (simp_all add: observe_def)
  from create_campaign_adset_budgets [OF c] obtain n where
    n: "observe adset_budget s1 =
          map (\<lambda>a. Some (PFloat (float_times rt (AdSetParameters.daily_budget a) 100)))
            (take n (or_empty (ad_sets params)))"
       "\<not> isl r \<longrightarrow> n = length (or_empty (ad_sets params))"
    using e by auto
  have "prefix (observe adset_budget s1)
     (map (\<lambda>a. Some (PFloat (float_times rt (AdSetParameters.daily_budget a) 100)))
        (or_empty (ad_sets params)))"
    unfolding n(1) by (rule map_mono_prefix) (rule take_is_prefix)
  with create_campaign_campaign_budget [OF c] n c e show ?thesis by simp
qed

theorem daily_budget_times_100_witness:
  "\<not> isl (fst (create_campaign stub_runtime 0
            (sample_params
               (Some [sample_adset, sample_adset\<lparr>AdSetParameters.daily_budget := 15\<rparr>])
               (Some [sample_creative None]))
            (stub_state (sample_product [''https://x.test/i1.jpg''] None)))) \<and>
   observe campaign_budget
     (snd (create_campaign stub_runtime 0
            (sample_params
               (Some [sample_adset, sample_adset\<lparr>AdSetParameters.daily_budget := 15\<rparr>])
               (Some [sample_creative None]))
            (stub_state (sample_product [''https://x.test/i1.jpg''] None))))
     = [Some (PFloat 5000)] \<and>
   observe adset_budget
     (snd (create_campaign stub_runtime 0
            (sample_params
               (Some [sample_adset, sample_adset\<lparr>AdSetParameters.daily_budget := 15\<rparr>])
               (Some [sample_creative None]))
            (stub_state (sample_product [''https://x.test/i1.jpg''] None))))
     = [Some (PFloat 2000), Some (PFloat 1500)]"
  using daily_budget_times_100
          [of stub_runtime 0
              "sample_params
                 (Some [sample_adset, sample_adset\<lparr>AdSetParameters.daily_budget := 15\<rparr>])
                 (Some [sample_creative None])"
              "stub_state (sample_product [''https://x.test/i1.jpg''] None)"]
  by (simp add: sample_defs pipeline_defs observe_def Let_def)

section \<open>Media upload\<close>

lemma upload_images_kept:
  "fst (upload_images rt us ids s) = ids @ kept_ids (image_outcomes rt us s)"
proof (induction us arbitrary: ids s)
  case Nil
  show ?case by simp
next
  case (Cons u us)
  obtain r s1 where u: "upload_image rt u s = (r, s1)"
    by (cases "upload_image rt u s")
  show ?case
    using Cons.IH u by (cases r rule: truthy.cases) simp_all
qed

lemma upload_videos_kept:
  "fst (upload_videos rt us ids s) = ids @ kept_ids (video_outcomes rt us s)"
proof (induction us arbitrary: ids s)
  case Nil
  show ?case by simp
next
  case (Cons u us)
  obtain r s1 where u: "upload_video rt u s = (r, s1)"
    by (cases "upload_video rt u s")
  show ?case
    using Cons.IH u by (cases r rule: truthy.cases) simp_all
qed

lemma upload_media_result:
  "fst (upload_media rt m s) =
     [''images'' \<mapsto> kept_ids (image_outcomes rt (or_empty (m ''images'')) s),
      ''videos'' \<mapsto> kept_ids (video_outcomes rt (or_empty (m ''videos''))
                       (snd (upload_images rt (or_empty (m ''images'')) [] s)))]"
proof -
  have i: "(if truthy (m ''images'') then upload_images rt (the (m ''images'')) [] s else ([], s))
             = upload_images rt (or_empty (m ''images'')) [] s"
    by (cases "m ''images''" rule: truthy.cases) simp_all
  have v: "\<And>s1. (if truthy (m ''videos'') then upload_videos rt (the (m ''videos'')) [] s1
                  else ([], s1))
             = upload_videos rt (or_empty (m ''videos'')) [] s1"
    by (cases "m ''videos''" rule: truthy.cases) simp_all
  obtain a sa where ua: "upload_images rt (or_empty (m ''images'')) [] s = (a, sa)"
    by (cases "upload_images rt (or_empty (m ''images'')) [] s")
  obtain b sb where ub: "upload_videos rt (or_empty (m ''videos'')) [] sa = (b, sb)"
    by (cases "upload_videos rt (or_empty (m ''videos'')) [] sa")
  have "a = kept_ids (image_outcomes rt (or_empty (m ''images'')) s)"
    using upload_images_kept [of rt "or_empty (m ''images'')" "[]" s] ua by simp
  moreover have "b = kept_ids (video_outcomes rt (or_empty (m ''videos'')) sa)"
    using upload_videos_kept [of rt "or_empty (m ''videos'')" "[]" sa] ub by simp
  ultimately show ?thesis
    unfolding upload_media_def i v using ua ub by simp
qed

lemma upload_image_outcome:
  "fst (upload_image rt u s) =
     (case call rt (requests_get u) s of
        (Inl e, s1) \<Rightarrow> None
      | (Inr content, s1) \<Rightarrow>
          (case fst (call rt (AdImage_remote_create (ad_account_get_id rt)
                                [(''bytes'', PStr content)]) s1) of
             Inl e \<Rightarrow> None
           | Inr h \<Rightarrow> Some h))"
  by (auto simp: upload_image_def split: prod.splits sum.splits)

lemma upload_video_outcome:
  "fst (upload_video rt u s) =
     (case fst (call rt (AdVideo_remote_create (ad_account_get_id rt)
                           [(''file_url'', PStr u)]) s) of
        Inl e \<Rightarrow> None
      | Inr v \<Rightarrow> Some v)"
  by (auto simp: upload_video_def split: prod.splits sum.splits)

text \<open>
  C3, as the code has it. \<open>upload_media\<close> has no exception of its own to raise: every
  exception of a fetch or of a remote create is caught in \<open>upload_image\<close> and
  \<open>upload_video\<close>, whose outcome is then \<open>None\<close>, and is the identifier when both steps
  succeed. The result maps \<open>images\<close> and \<open>videos\<close> to the identifiers of the successful
  uploads that are not the empty string, in the order of the URLs: a failed upload is
  left out, and so is a successful one whose identifier is empty.
\<close>

theorem upload_media_keeps_nonempty_successes:
  "fst (upload_media rt m s) =
     [''images'' \<mapsto> kept_ids (image_outcomes rt (or_empty (m ''images'')) s),
      ''videos'' \<mapsto> kept_ids (video_outcomes rt (or_empty (m ''videos''))
                       (snd (upload_images rt (or_empty (m ''images'')) [] s)))] \<and>
   fst (upload_image rt u s) =
     (case call rt (requests_get u) s of
        (Inl e, s1) \<Rightarrow> None
      | (Inr content, s1) \<Rightarrow>
          (case fst (call rt (AdImage_remote_create (ad_account_get_id rt)
                                [(''bytes'', PStr content)]) s1) of
             Inl e \<Rightarrow> None
           | Inr h \<Rightarrow> Some h)) \<and>
   fst (upload_video rt u s) =
     (case fst (call rt (AdVideo_remote_create (ad_account_get_id rt)
                           [(''file_url'', PStr u)]) s) of
        Inl e \<Rightarrow> None
      | Inr v \<Rightarrow> Some v)"
  by (intro conjI upload_media_result upload_image_outcome upload_video_outcome)

theorem upload_media_keeps_nonempty_successes_witness:
  "fst (upload_media stub_runtime
          [''images'' \<mapsto> [''https://x.test/missing.jpg'', ''https://x.test/i1.jpg'']]
          (stub_state (sample_product [] None)))
     = [''images'' \<mapsto> [''hash1''], ''videos'' \<mapsto> []] \<and>
   printed (snd (upload_media stub_runtime
          [''images'' \<mapsto> [''https://x.test/missing.jpg'', ''https://x.test/i1.jpg'']]
          (stub_state (sample_product [] None))))
     = [Error_uploading_image ''https://x.test/missing.jpg'' (PlatformError ''ConnectionError'')] \<and>
   fst (upload_image stub_runtime ''https://x.test/missing.jpg''
          (stub_state (sample_product [] None))) = None"
  using upload_media_keeps_nonempty_successes
          [of stub_runtime
              "[''images'' \<mapsto> [''https://x.test/missing.jpg'', ''https://x.test/i1.jpg'']]"
              "stub_state (sample_product [] None)" "''https://x.test/missing.jpg''"]
  by (simp add: sample_defs pipeline_defs)

text \<open>
  C3 as stated fails: the platform answers the upload of \<open>blank.jpg\<close> with the empty
  hash, the upload succeeds with that identifier, and the result has no image
  identifier.
\<close>

theorem upload_media_drops_empty_identifier:
  "image_outcomes stub_runtime [''https://x.test/blank.jpg'']
     (stub_state (sample_product [] None)) = [Some []] \<and>
   successful_ids (image_outcomes stub_runtime [''https://x.test/blank.jpg'']
     (stub_state (sample_product [] None))) = [[]] \<and>
   fst (upload_media stub_runtime [''images'' \<mapsto> [''https://x.test/blank.jpg'']]
          (stub_state (sample_product [] None))) ''images'' = Some []"
  by (simp add: sample_defs pipeline_defs)

section \<open>Number of requests of a build\<close>

text \<open>
  On a platform where every operation succeeds, for a product whose URL map has the
  key \<open>sales\<close>, and when no video was uploaded, a build returns the campaign after one
  campaign-create request, one ad-set-create request for each ad set and, for each ad
  set, one creative-create and one ad-create request for each pair of a creative and
  an uploaded image.
\<close>

lemma call_succeeds:
  "succeeds rt \<Longrightarrow> \<exists>x s1. call rt rq s = (Inr x, s1)"
  unfolding succeeds_def call_def
  by (metis (no_types, lifting) case_prod_beta fst_conv isl_def old.sum.exhaust surjective_pairing)

lemma count_call:
  "call rt rq s = (r, s1) \<Longrightarrow> count_calls K s1 = count_calls K s + (if K rq then 1 else 0)"
  by (auto simp: count_calls_def dest!: call_effect)

lemma count_observe: "count_calls K s = length (observe (\<lambda>rq. if K rq then [rq] else []) s)"
  by (simp add: count_calls_def observe_filter)

lemma create_image_ad_counts:
  assumes "succeeds rt" and "urls (heap s p) ''sales'' \<noteq> None"
  shows "\<exists>s1. create_image_ad rt a c p h s = (Inr (), s1) \<and> heap s1 = heap s \<and>
           count_calls is_campaign_create s1 = count_calls is_campaign_create s \<and>
           count_calls is_adset_create s1 = count_calls is_adset_create s \<and>
           count_calls is_creative_create s1 = count_calls is_creative_create s + 1 \<and>
           count_calls is_ad_create s1 = count_calls is_ad_create s + 1"
proof -
  have "\<exists>l. link_of c (heap s p) = Inr l"
    using assms(2) by (cases "link_destination c" rule: truthy.cases) (auto simp: link_of_def)
  then obtain l where l: "link_of c (heap s p) = Inr l" ..
  let ?rq1 = "AdAccount_create_ad_creative (ad_account_get_id rt)
                  [(''name'', PStr (''Creative_'' @ strftime_now rt (world s))),
                   (''object_story_spec'', PDict
                      [(''page_id'', opt_val PStr (getenv rt ''FB_PAGE_ID'')),
                       (''link_data'', PDict
                          [(''link'', PStr l),
                           (''message'', PStr (primary_text c)),
                           (''headline'', PStr (headline c)),
                           (''description'', PStr (AdCreative.description c)),
                           (''image_hash'', PStr h),
                           (''call_to_action'',
                              PDict [(''type'', PStr (call_to_action c))])])])]"
  obtain x sa where c1: "call rt ?rq1 s = (Inr x, sa)"
    using call_succeeds [OF assms(1)] by blast
  let ?rq2 = "Ad_create a
                       [(''name'', PStr (''Ad_Image_'' @ strftime_now rt (world sa))),
                        (''adset_id'', PStr a),
                        (''creative'', PDict [(''creative_id'', PStr x)]),
                        (''status'', PStr ''PAUSED'')]"
  obtain y sb where c2: "call rt ?rq2 sa = (Inr y, sb)"
    using call_succeeds [OF assms(1)] by blast
  have r: "create_image_ad rt a c p h s = (Inr (), sb)"
    using l c1 c2 by (simp add: create_image_ad_def)
  show ?thesis
    using r call_effect [OF c1] call_effect [OF c2]
    by (simp add: count_calls_def)
qed

lemma image_ads_counts:
  assumes "succeeds rt"
  shows "urls (heap s p) ''sales'' \<noteq> None \<Longrightarrow>
         \<exists>s1. image_ads rt a c p hs s = (Inr (), s1) \<and> heap s1 = heap s \<and>
           count_calls is_campaign_create s1 = count_calls is_campaign_create s \<and>
           count_calls is_adset_create s1 = count_calls is_adset_create s \<and>
           count_calls is_creative_create s1 = count_calls is_creative_create s + length hs \<and>
           count_calls is_ad_create s1 = count_calls is_ad_create s + length hs"
proof (induction hs arbitrary: s)
  case Nil
  then show ?case by simp
next
  case (Cons h hs)
  from create_image_ad_counts [OF assms Cons.prems, of a c h] obtain sa where
    a: "create_image_ad rt a c p h s = (Inr (), sa)" "heap sa = heap s"
       "count_calls is_campaign_create sa = count_calls is_campaign_create s"
       "count_calls is_adset_create sa = count_calls is_adset_create s"
       "count_calls is_creative_create sa = count_calls is_creative_create s + 1"
       "count_calls is_ad_create sa = count_calls is_ad_create s + 1"
    by blast
  from Cons.prems a(2) have "urls (heap sa p) ''sales'' \<noteq> None" by simp
  from Cons.IH [OF this] obtain sb where
    b: "image_ads rt a c p hs sa = (Inr (), sb)" "heap sb = heap sa"
       "count_calls is_campaign_create sb = count_calls is_campaign_create sa"
       "count_calls is_adset_create sb = count_calls is_adset_create sa"
       "count_calls is_creative_create sb = count_calls is_creative_create sa + length hs"
       "count_calls is_ad_create sb = count_calls is_ad_create sa + length hs"
    by blast
  from a b show ?case by simp
qed

lemma creatives_loop_counts:
  assumes "succeeds rt" and "m ''images'' = Some hs" and "m ''videos'' = Some []"
  shows "urls (heap s p) ''sales'' \<noteq> None \<Longrightarrow>
         \<exists>s1. creatives_loop rt a cs p m s = (Inr (), s1) \<and> heap s1 = heap s \<and>
           count_calls is_campaign_create s1 = count_calls is_campaign_create s \<and>
           count_calls is_adset_create s1 = count_calls is_adset_create s \<and>
           count_calls is_creative_create s1
             = count_calls is_creative_create s + length cs * length hs \<and>
           count_calls is_ad_create s1 = count_calls is_ad_create s + length cs * length hs"
proof (induction cs arbitrary: s)
  case Nil
  then show ?case by simp
next
  case (Cons c cs)
  from image_ads_counts [OF assms(1) Cons.prems, of a c hs] obtain sa where
    a: "image_ads rt a c p hs s = (Inr (), sa)" "heap sa = heap s"
       "count_calls is_campaign_create sa = count_calls is_campaign_create s"
       "count_calls is_adset_create sa = count_calls is_adset_create s"
       "count_calls is_creative_create sa = count_calls is_creative_create s + length hs"
       "count_calls is_ad_create sa = count_calls is_ad_create s + length hs"
    by blast
  from Cons.prems a(2) have "urls (heap sa p) ''sales'' \<noteq> None" by simp
  from Cons.IH [OF this] obtain sb where
    b: "creatives_loop rt a cs p m sa = (Inr (), sb)" "heap sb = heap sa"
       "count_calls is_campaign_create sb = count_calls is_campaign_create sa"
       "count_calls is_adset_create sb = count_calls is_adset_create sa"
       "count_calls is_creative_create sb
          = count_calls is_creative_create sa + length cs * length hs"
       "count_calls is_ad_create sb = count_calls is_ad_create sa + length cs * length hs"
    by blast
  from a b assms(2,3) show ?case by simp
qed

lemma ad_sets_loop_counts:
  assumes "succeeds rt" and "m ''images'' = Some hs" and "m ''videos'' = Some []"
  shows "urls (heap s p) ''sales'' \<noteq> None \<Longrightarrow>
         \<exists>s1. ad_sets_loop rt cmp sets (Some cs) p m s = (Inr (), s1) \<and> heap s1 = heap s \<and>
           count_calls is_campaign_create s1 = count_calls is_campaign_create s \<and>
           count_calls is_adset_create s1 = count_calls is_adset_create s + length sets \<and>
           count_calls is_creative_create s1
             = count_calls is_creative_create s + length sets * (length cs * length hs) \<and>
           count_calls is_ad_create s1
             = count_calls is_ad_create s + length sets * (length cs * length hs)"
proof (induction sets arbitrary: s)
  case Nil
  then show ?case by simp
next
  case (Cons x sets)
  let ?rq = "AdSet_create cmp
       [(''name'', PStr (AdSetParameters.name x)),
        (''campaign_id'', PStr cmp),
        (''daily_budget'',
           PFloat (float_times rt (AdSetParameters.daily_budget x) 100)),
        (''optimization_goal'', PStr (OptimizationGoal_value (optimization_goal x))),
        (''billing_event'', PStr (billing_event x)),
        (''bid_strategy'', PStr (BidStrategy_value (AdSetParameters.bid_strategy x))),
        (''targeting'', PDict (build_targeting_spec (targeting x))),
        (''start_time'', opt_val PStr (start_time x)),
        (''end_time'', opt_val PStr (end_time x)),
        (''status'', PStr ''PAUSED'')]"
  obtain adset s0 where c0: "call rt ?rq s = (Inr adset, s0)"
    using call_succeeds [OF assms(1)] by blast
  then have a0: "create_adset rt cmp x p s = (Inr adset, s0)"
    by (simp add: create_adset_def)
  note e0 = call_effect [OF c0]
  from Cons.prems e0 have "urls (heap s0 p) ''sales'' \<noteq> None" by simp
  from creatives_loop_counts [OF assms this, of adset cs] obtain sa where
    a: "creatives_loop rt adset cs p m s0 = (Inr (), sa)" "heap sa = heap s0"
       "count_calls is_campaign_create sa = count_calls is_campaign_create s0"
       "count_calls is_adset_create sa = count_calls is_adset_create s0"
       "count_calls is_creative_create sa
          = count_calls is_creative_create s0 + length cs * length hs"
       "count_calls is_ad_create sa = count_calls is_ad_create s0 + length cs * length hs"
    by blast
  from Cons.prems e0 a(2) have "urls (heap sa p) ''sales'' \<noteq> None" by simp
  from Cons.IH [OF this] obtain sb where
    b: "ad_sets_loop rt cmp sets (Some cs) p m sa = (Inr (), sb)" "heap sb = heap sa"
       "count_calls is_campaign_create sb = count_calls is_campaign_create sa"
       "count_calls is_adset_create sb = count_calls is_adset_create sa + length sets"
       "count_calls is_creative_create sb
          = count_calls is_creative_create sa + length sets * (length cs * length hs)"
       "count_calls is_ad_create sb
          = count_calls is_ad_create sa + length sets * (length cs * length hs)"
    by blast
  from a0 a b e0 show ?case by (simp add: create_ads_def count_calls_def)
qed

lemma create_campaign_counts_without_videos:
  assumes "succeeds rt"
    and "urls (heap s p) ''sales'' \<noteq> None"
    and "fst (upload_media rt (media_urls_of (heap s p)) s) ''images'' = Some hs"
    and "fst (upload_media rt (media_urls_of (heap s p)) s) ''videos'' = Some []"
    and "ad_sets params = Some sets" and "ad_creatives params = Some cs"
  shows "\<exists>campaign s1. create_campaign rt p params s = (Inr campaign, s1) \<and>
           count_calls is_campaign_create s1 = count_calls is_campaign_create s + 1 \<and>
           count_calls is_adset_create s1 = count_calls is_adset_create s + length sets \<and>
           count_calls is_creative_create s1
             = count_calls is_creative_create s + length sets * (length cs * length hs) \<and>
           count_calls is_ad_create s1
             = count_calls is_ad_create s + length sets * (length cs * length hs)"
proof -
  obtain m sa where u: "upload_media rt (media_urls_of (heap s p)) s = (m, sa)"
    by (cases "upload_media rt (media_urls_of (heap s p)) s")
  with assms(3,4) have m: "m ''images'' = Some hs" "m ''videos'' = Some []" by simp_all
  have ha: "heap sa = heap s" using upload_media_heap [OF u] .
  have ua: "count_calls is_campaign_create sa = count_calls is_campaign_create s"
           "count_calls is_adset_create sa = count_calls is_adset_create s"
           "count_calls is_creative_create sa = count_calls is_creative_create s"
           "count_calls is_ad_create sa = count_calls is_ad_create s"
    unfolding count_observe
    by (rule arg_cong [where f = length], rule silentD [OF upload_media_silent u], simp_all)+
  let ?rq = "AdAccount_create_campaign (ad_account_get_id rt)
       [(''name'', PStr (FacebookCampaignParameters.name params @ ''_''
                          @ strftime_now rt (world sa))),
        (''objective'', PStr (CampaignObjective_value (objective params))),
        (''status'', PStr (status params)),
        (''special_ad_categories'',
           PList (map PStr (or_empty (special_ad_categories params)))),
        (''daily_budget'',
           PFloat (float_times rt (FacebookCampaignParameters.daily_budget params) 100)),
        (''bid_strategy'',
           PStr (BidStrategy_value (FacebookCampaignParameters.bid_strategy params))),
        (''buying_type'', PStr (buying_type params))]"
  obtain campaign sb where cb: "call rt ?rq sa = (Inr campaign, sb)"
    using call_succeeds [OF assms(1)] by blast
  then have b: "create_base_campaign rt p params sa = (Inr campaign, sb)"
    by (simp add: create_base_campaign_def)
  note eb = call_effect [OF cb]
  from assms(2) ha eb have "urls (heap sb p) ''sales'' \<noteq> None" by simp
  from ad_sets_loop_counts [OF assms(1) m this, of campaign sets cs] obtain sc where
    c: "ad_sets_loop rt campaign sets (Some cs) p m sb = (Inr (), sc)"
       "count_calls is_campaign_create sc = count_calls is_campaign_create sb"
       "count_calls is_adset_create sc = count_calls is_adset_create sb + length sets"
       "count_calls is_creative_create sc
          = count_calls is_creative_create sb + length sets * (length cs * length hs)"
       "count_calls is_ad_create sc
          = count_calls is_ad_create sb + length sets * (length cs * length hs)"
    by blast
  have "create_campaign rt p params s = (Inr campaign, sc)"
    using u b c(1) assms(5,6) by (simp add: create_campaign_def)
  with c ua eb show ?thesis by (simp add: count_calls_def)
qed

text \<open>
  C1 at one ad set, two creatives, one uploaded image and one uploaded video, on a
  platform where every operation succeeds: the build ends with \<open>AttributeError\<close> after
  one campaign-create, one ad-set-create, one creative-create and one ad-create request
  (the image ad of the first creative), not four creatives and four ads.
\<close>

theorem create_campaign_one_image_one_video:
  "fst (upload_media stub_runtime
          (media_urls_of (sample_product [''https://x.test/i1.jpg''] (Some [''https://x.test/v1.mp4''])))
          (stub_state (sample_product [''https://x.test/i1.jpg''] (Some [''https://x.test/v1.mp4'']))))
     = [''images'' \<mapsto> [''hash1''], ''videos'' \<mapsto> [''video1'']] \<and>
   fst (create_campaign stub_runtime 0
          (sample_params (Some [sample_adset])
             (Some [sample_creative None, sample_creative (Some ''https://x.test/offer'')]))
          (stub_state (sample_product [''https://x.test/i1.jpg''] (Some [''https://x.test/v1.mp4'']))))
     = Inl (AttributeError ''thumbnail_url'') \<and>
   map (\<lambda>K. count_calls K
     (snd (create_campaign stub_runtime 0
          (sample_params (Some [sample_adset])
             (Some [sample_creative None, sample_creative (Some ''https://x.test/offer'')]))
          (stub_state (sample_product [''https://x.test/i1.jpg''] (Some [''https://x.test/v1.mp4'']))))))
     [is_campaign_create, is_adset_create, is_creative_create, is_ad_create]
     = [1, 1, 1, 1]"
  by (simp add: sample_defs pipeline_defs count_calls_def Let_def)

section \<open>Link of an image ad\<close>

text \<open>
  The link that \<open>create_image_ad\<close> puts into its creative-create request is the link
  target of the creative when that is a non-empty string, whatever the string is, and
  the \<open>sales\<close> URL of the product otherwise.
\<close>

lemma create_image_ad_link:
  "create_image_ad rt a c p h s = (r, s1) \<Longrightarrow>
     observe link_carried s1 = observe link_carried s @
       (case link_of c (heap s p) of Inl e \<Rightarrow> [] | Inr l \<Rightarrow> [Some (PStr l)])"
  by (auto simp: create_image_ad_def split: prod.splits sum.splits
           dest!: observe_call [where obs = link_carried])

lemma link_of_cases:
  "link_of c p =
     (case link_destination c of
        Some (x # xs) \<Rightarrow> Inr (x # xs)
      | _ \<Rightarrow> (case urls p ''sales'' of None \<Rightarrow> Inl (KeyError ''sales'') | Some u \<Rightarrow> Inr u))"
  by (cases "link_destination c" rule: truthy.cases) (simp_all add: link_of_def)

text \<open>
  C8 at a creative whose link target is the key \<open>product\<close>: the creative-create request
  carries the string \<open>product\<close> itself as its link, not the URL that the product's map
  has for that key.
\<close>

theorem image_ad_link_is_the_literal_key:
  "urls (sample_product [] None) ''product'' = Some ''https://x.test/ABC?dp=1'' \<and>
   observe link_carried
     (snd (create_image_ad stub_runtime ''adset1'' (sample_creative (Some ''product'')) 0
             ''hash1'' (stub_state (sample_product [] None))))
     = [Some (PStr ''product'')]"
  by (simp add: sample_defs pipeline_defs observe_def)

end
